theory Spec2Isabelle
  imports Main "HOL-Library.Log_Nat"
begin

section \<open>JavaScript values\<close>

text \<open>
  The program is a JavaScript relay (\<^verbatim>\<open>server.js\<close> and its serverless copy
  \<^verbatim>\<open>api/verify-payment.js\<close>). Its inputs are JSON documents, so the values it
  handles are the values \<^verbatim>\<open>JSON.parse\<close> produces, plus \<^verbatim>\<open>undefined\<close> for a
  property that is not there.

  A JavaScript number is an IEEE 754 binary64 value. \<open>Finite q\<close> stands for the finite
  double whose exact value is the rational \<open>q\<close>; the sign of zero is not kept, since
  nothing the program does with a number (\<^verbatim>\<open>===\<close>, \<^verbatim>\<open>Number.isNaN\<close>,
  \<^verbatim>\<open>Math.round\<close>, \<^verbatim>\<open>*\<close>, truthiness) tells \<^verbatim>\<open>-0\<close> from \<^verbatim>\<open>+0\<close>.
\<close>

datatype jsnum = NaN | PosInf | NegInf | Finite rat

text \<open>
  An object is the list of its own properties (the keys of a parsed JSON object are
  distinct). Strings are byte strings: the model covers ASCII text (white space and
  letter case outside ASCII are not modelled).
\<close>

datatype jsval =
    JUndefined
  | JNull
  | JBool bool
  | JNum jsnum
  | JStr string
  | JArr "jsval list"
  | JObj "(string \<times> jsval) list"

text \<open>Exceptions: a \<^verbatim>\<open>TypeError\<close> raised by the language (with its message, whose
  wording is the engine's and plays no part in what follows), or the error
  \<^verbatim>\<open>axios.get\<close> rejects with, of which the handlers read \<^verbatim>\<open>err.response?.data\<close>
  and \<^verbatim>\<open>err.message\<close>.\<close>

datatype exn = TypeError string | AxiosError jsval jsval

fun err_response_data :: "exn \<Rightarrow> jsval" where
  "err_response_data (TypeError m) = JUndefined"
| "err_response_data (AxiosError d m) = d"

fun err_message :: "exn \<Rightarrow> jsval" where
  "err_message (TypeError m) = JStr m"
| "err_message (AxiosError d m) = m"

subsection \<open>Truthiness, property access, \<^verbatim>\<open>||\<close>\<close>

text \<open>\<^verbatim>\<open>ToBoolean\<close>: the falsy values are \<^verbatim>\<open>undefined\<close>, \<^verbatim>\<open>null\<close>, \<^verbatim>\<open>false\<close>,
  \<^verbatim>\<open>0\<close>, \<^verbatim>\<open>NaN\<close> and the empty string.\<close>

fun truthy :: "jsval \<Rightarrow> bool" where
  "truthy JUndefined = False"
| "truthy JNull = False"
| "truthy (JBool b) = b"
| "truthy (JNum n) = (n \<noteq> NaN \<and> n \<noteq> Finite 0)"
| "truthy (JStr s) = (s \<noteq> [])"
| "truthy (JArr xs) = True"
| "truthy (JObj kvs) = True"

definition js_or :: "jsval \<Rightarrow> jsval \<Rightarrow> jsval" where
  "js_or a b = (if truthy a then a else b)"

text \<open>
  \<^verbatim>\<open>v.k\<close> for a property name \<open>k\<close> that no built-in prototype defines (the program
  reads \<^verbatim>\<open>reference\<close>, \<^verbatim>\<open>email\<close>, \<^verbatim>\<open>currency\<close>, \<^verbatim>\<open>amount\<close>, \<^verbatim>\<open>data\<close>
  and \<^verbatim>\<open>status\<close>): reading from \<^verbatim>\<open>undefined\<close> or \<^verbatim>\<open>null\<close> throws, an object
  gives its own property, every other value gives \<^verbatim>\<open>undefined\<close>.
\<close>

fun own_prop :: "jsval \<Rightarrow> string \<Rightarrow> jsval" where
  "own_prop (JObj kvs) k = (case map_of kvs k of Some v \<Rightarrow> v | None \<Rightarrow> JUndefined)"
| "own_prop v k = JUndefined"

definition get_prop :: "jsval \<Rightarrow> string \<Rightarrow> exn + jsval" where
  "get_prop v k =
     (if v = JUndefined then
        Inl (TypeError (''Cannot read properties of undefined (reading '' @ k @ '')''))
      else if v = JNull then
        Inl (TypeError (''Cannot read properties of null (reading '' @ k @ '')''))
      else Inr (own_prop v k))"

section \<open>Numbers\<close>

subsection \<open>Rounding a rational to the nearest double\<close>

text \<open>\<open>ilog2 q\<close> is \<open>\<lfloor>log\<^sub>2 q\<rfloor>\<close> for a positive rational \<open>q\<close>.\<close>

definition ilog2 :: "rat \<Rightarrow> int" where
  "ilog2 q =
     (let (n, d) = quotient_of q; k = bitlen n - bitlen d
      in if 2 powi k \<le> q then k else k - 1)"

text \<open>Round to the nearest integer, ties to the even one.\<close>

definition round_half_even :: "rat \<Rightarrow> int" where
  "round_half_even q =
     (let f = \<lfloor>q\<rfloor>; r = q - of_int f
      in if r < 1 / 2 then f
         else if 1 / 2 < r then f + 1
         else if even f then f else f + 1)"

text \<open>
  \<open>to_double q\<close> is the binary64 value nearest to \<open>q\<close> (round to nearest, ties to
  even): 53 significant bits, least exponent \<open>-1022\<close> (below it the spacing stays
  \<open>2\<^sup>-\<^sup>1\<^sup>0\<^sup>7\<^sup>4\<close>), and a result of magnitude \<open>2\<^sup>1\<^sup>0\<^sup>2\<^sup>4\<close> or more is an infinity.
\<close>

definition to_double :: "rat \<Rightarrow> jsnum" where
  "to_double q =
     (if q = 0 then Finite 0
      else
        let e = max (ilog2 \<bar>q\<bar>) (- 1022);
            u = 2 powi (e - 52);
            v = of_int (round_half_even (\<bar>q\<bar> / u)) * u
        in if 2 powi 1024 \<le> v then (if 0 < q then PosInf else NegInf)
           else Finite (sgn q * v))"

subsection \<open>The operations of the program on numbers\<close>

text \<open>\<^verbatim>\<open>a * b\<close> on numbers.\<close>

fun js_mul :: "jsnum \<Rightarrow> jsnum \<Rightarrow> jsnum" where
  "js_mul NaN b = NaN"
| "js_mul a NaN = NaN"
| "js_mul (Finite p) (Finite q) = to_double (p * q)"
| "js_mul (Finite p) PosInf = (if p = 0 then NaN else if 0 < p then PosInf else NegInf)"
| "js_mul (Finite p) NegInf = (if p = 0 then NaN else if 0 < p then NegInf else PosInf)"
| "js_mul PosInf (Finite q) = (if q = 0 then NaN else if 0 < q then PosInf else NegInf)"
| "js_mul NegInf (Finite q) = (if q = 0 then NaN else if 0 < q then NegInf else PosInf)"
| "js_mul PosInf PosInf = PosInf"
| "js_mul PosInf NegInf = NegInf"
| "js_mul NegInf PosInf = NegInf"
| "js_mul NegInf NegInf = PosInf"

text \<open>
  \<^verbatim>\<open>Math.round(x)\<close>: the integer nearest to \<open>x\<close>, the one towards \<open>+\<infinity>\<close> on a tie,
  that is \<open>\<lfloor>x + 1/2\<rfloor>\<close> computed exactly (a double of magnitude \<open>2\<^sup>5\<^sup>2\<close> or more is
  an integer already, and below that the result is a double).
\<close>

fun Math_round :: "jsnum \<Rightarrow> jsnum" where
  "Math_round (Finite q) = Finite (of_int \<lfloor>q + 1 / 2\<rfloor>)"
| "Math_round x = x"

text \<open>\<^verbatim>\<open>Number.isNaN\<close>, and \<^verbatim>\<open>===\<close> on two numbers (\<^verbatim>\<open>NaN\<close> equals nothing).\<close>

definition Number_isNaN :: "jsnum \<Rightarrow> bool" where
  "Number_isNaN x = (x = NaN)"

definition num_strict_eq :: "jsnum \<Rightarrow> jsnum \<Rightarrow> bool" where
  "num_strict_eq a b = (a \<noteq> NaN \<and> b \<noteq> NaN \<and> a = b)"

subsection \<open>\<^verbatim>\<open>Number(v)\<close>: conversion of a value to a number\<close>

text \<open>
  The string grammar of \<^verbatim>\<open>StringToNumber\<close>: white space around the literal is
  dropped; the empty string is \<open>0\<close>; a literal is a signed decimal (digits, an
  optional fraction, an optional exponent, or \<^verbatim>\<open>Infinity\<close>) or an unsigned binary,
  octal or hexadecimal integer; anything else is \<^verbatim>\<open>NaN\<close>. The value of the literal
  is rounded to the nearest double.
  Only the ASCII white space is dropped here; JavaScript also drops the white space
  outside ASCII (U+00A0, U+FEFF, U+2028 and others), which a byte string does not carry.
\<close>

definition is_ws :: "char \<Rightarrow> bool" where
  "is_ws c = (c \<in> set [CHR 0x09, CHR 0x0A, CHR 0x0B, CHR 0x0C, CHR 0x0D, CHR 0x20])"

definition trim_ws :: "string \<Rightarrow> string" where
  "trim_ws s = rev (dropWhile is_ws (rev (dropWhile is_ws s)))"

definition is_digit :: "char \<Rightarrow> bool" where
  "is_digit c = (48 \<le> (of_char c :: nat) \<and> (of_char c :: nat) \<le> 57)"

definition digit_of :: "char \<Rightarrow> nat option" where
  "digit_of c =
     (let n = (of_char c :: nat)
      in if 48 \<le> n \<and> n \<le> 57 then Some (n - 48)
         else if 97 \<le> n \<and> n \<le> 102 then Some (n - 87)
         else if 65 \<le> n \<and> n \<le> 70 then Some (n - 55)
         else None)"

fun radix_value :: "nat \<Rightarrow> nat \<Rightarrow> string \<Rightarrow> nat option" where
  "radix_value r acc [] = Some acc"
| "radix_value r acc (c # cs) =
     (case digit_of c of
        None \<Rightarrow> None
      | Some d \<Rightarrow> if d < r then radix_value r (acc * r + d) cs else None)"

definition digits :: "nat \<Rightarrow> string \<Rightarrow> nat option" where
  "digits r s = (if s = [] then None else radix_value r 0 s)"

definition parse_exponent :: "string \<Rightarrow> int option" where
  "parse_exponent s =
     (if s = [] then Some 0
      else if hd s = CHR ''e'' \<or> hd s = CHR ''E'' then
        (let t = tl s
         in if t \<noteq> [] \<and> hd t = CHR ''+'' then map_option int (digits 10 (tl t))
            else if t \<noteq> [] \<and> hd t = CHR ''-'' then map_option (\<lambda>n. - int n) (digits 10 (tl t))
            else map_option int (digits 10 t))
      else None)"

definition parse_unsigned :: "string \<Rightarrow> jsnum option" where
  "parse_unsigned s =
     (if s = ''Infinity'' then Some PosInf
      else
        let ip = takeWhile is_digit s;
            r1 = dropWhile is_digit s;
            has_dot = (r1 \<noteq> [] \<and> hd r1 = CHR ''.'');
            fp = (if has_dot then takeWhile is_digit (tl r1) else []);
            r2 = (if has_dot then dropWhile is_digit (tl r1) else r1)
        in if ip = [] \<and> fp = [] then None
           else (case (digits 10 (ip @ fp), parse_exponent r2) of
                   (Some m, Some ex) \<Rightarrow>
                     Some (to_double (of_nat m * 10 powi (ex - int (length fp))))
                 | _ \<Rightarrow> None))"

fun js_neg :: "jsnum \<Rightarrow> jsnum" where
  "js_neg NaN = NaN"
| "js_neg PosInf = NegInf"
| "js_neg NegInf = PosInf"
| "js_neg (Finite q) = Finite (- q)"

definition parse_numeric :: "string \<Rightarrow> jsnum option" where
  "parse_numeric s =
     (if s = [] then None
      else if hd s = CHR ''+'' then parse_unsigned (tl s)
      else if hd s = CHR ''-'' then map_option js_neg (parse_unsigned (tl s))
      else if hd s = CHR ''0'' \<and> tl s \<noteq> [] \<and> hd (tl s) \<in> set ''xX'' then
        map_option (\<lambda>n. to_double (of_nat n)) (digits 16 (tl (tl s)))
      else if hd s = CHR ''0'' \<and> tl s \<noteq> [] \<and> hd (tl s) \<in> set ''oO'' then
        map_option (\<lambda>n. to_double (of_nat n)) (digits 8 (tl (tl s)))
      else if hd s = CHR ''0'' \<and> tl s \<noteq> [] \<and> hd (tl s) \<in> set ''bB'' then
        map_option (\<lambda>n. to_double (of_nat n)) (digits 2 (tl (tl s)))
      else parse_unsigned s)"

definition StringToNumber :: "string \<Rightarrow> jsnum" where
  "StringToNumber s =
     (let t = trim_ws s
      in if t = [] then Finite 0
         else (case parse_numeric t of Some n \<Rightarrow> n | None \<Rightarrow> NaN))"

text \<open>
  Converting an object to a primitive. A parsed JSON object has no callable property,
  so an own property \<^verbatim>\<open>toString\<close> hides \<^verbatim>\<open>Object.prototype.toString\<close> and the
  conversion throws; otherwise the object converts to \<^verbatim>\<open>"[object Object]"\<close>. An array
  converts to its elements' strings joined by commas, and throws when an element does.
\<close>

fun to_primitive_throws :: "jsval \<Rightarrow> bool"
  and to_primitive_throws_list :: "jsval list \<Rightarrow> bool" where
  "to_primitive_throws (JObj kvs) = (map_of kvs ''toString'' \<noteq> None)"
| "to_primitive_throws (JArr xs) = to_primitive_throws_list xs"
| "to_primitive_throws JUndefined = False"
| "to_primitive_throws JNull = False"
| "to_primitive_throws (JBool b) = False"
| "to_primitive_throws (JNum n) = False"
| "to_primitive_throws (JStr s) = False"
| "to_primitive_throws_list [] = False"
| "to_primitive_throws_list (x # xs) = (to_primitive_throws x \<or> to_primitive_throws_list xs)"

text \<open>
  The number an array converts to, when the conversion does not throw, is
  \<^verbatim>\<open>StringToNumber\<close> of the joined string. An empty array gives \<^verbatim>\<open>""\<close>, hence \<open>0\<close>;
  two or more elements give a string with a comma, hence \<^verbatim>\<open>NaN\<close>; one element gives
  that element's string: empty for \<^verbatim>\<open>null\<close> and \<^verbatim>\<open>undefined\<close>, \<^verbatim>\<open>"true"\<close> or
  \<^verbatim>\<open>"false"\<close> for a boolean, the string itself for a string, and for a number its
  decimal form, which \<^verbatim>\<open>StringToNumber\<close> reads back as the same number.
\<close>

fun elem_number :: "jsval \<Rightarrow> jsnum"
  and array_number :: "jsval list \<Rightarrow> jsnum" where
  "elem_number JUndefined = Finite 0"
| "elem_number JNull = Finite 0"
| "elem_number (JBool b) = NaN"
| "elem_number (JNum n) = n"
| "elem_number (JStr s) = StringToNumber s"
| "elem_number (JArr xs) = array_number xs"
| "elem_number (JObj kvs) = NaN"
| "array_number [] = Finite 0"
| "array_number [x] = elem_number x"
| "array_number (x # y # zs) = NaN"

definition cannot_convert :: exn where
  "cannot_convert = TypeError ''Cannot convert object to primitive value''"

fun Number :: "jsval \<Rightarrow> exn + jsnum" where
  "Number JUndefined = Inr NaN"
| "Number JNull = Inr (Finite 0)"
| "Number (JBool b) = Inr (Finite (if b then 1 else 0))"
| "Number (JNum n) = Inr n"
| "Number (JStr s) = Inr (StringToNumber s)"
| "Number (JArr xs) =
     (if to_primitive_throws_list xs then Inl cannot_convert else Inr (array_number xs))"
| "Number (JObj kvs) =
     (if map_of kvs ''toString'' \<noteq> None then Inl cannot_convert else Inr NaN)"

section \<open>\<^verbatim>\<open>amountsMatch\<close>\<close>

text \<open>
  \<^verbatim>\<open>
  function amountsMatch(clientAmountRaw, txAmount) {
    if (typeof clientAmountRaw === 'undefined' || clientAmountRaw === null) return true;
    const parsed = Number(clientAmountRaw);
    if (Number.isNaN(parsed)) return false;
    const asSmallest = Math.round(parsed);
    const asMainTimes100 = Math.round(parsed * 100);
    if (Number(txAmount) === asSmallest) return true;
    if (Number(txAmount) === asMainTimes100) return true;
    return false;
  }\<close>
  The function is written twice, once in each file, with the same body.
\<close>

definition amountsMatch :: "jsval \<Rightarrow> jsval \<Rightarrow> exn + bool" where
  "amountsMatch clientAmountRaw txAmount =
     (if clientAmountRaw = JUndefined \<or> clientAmountRaw = JNull then Inr True
      else
        case Number clientAmountRaw of
          Inl e \<Rightarrow> Inl e
        | Inr parsed \<Rightarrow>
            if Number_isNaN parsed then Inr False
            else
              let asSmallest = Math_round parsed;
                  asMainTimes100 = Math_round (js_mul parsed (Finite 100))
              in case Number txAmount of
                   Inl e \<Rightarrow> Inl e
                 | Inr t \<Rightarrow>
                     if num_strict_eq t asSmallest then Inr True
                     else if num_strict_eq t asMainTimes100 then Inr True
                     else Inr False)"

text \<open>The copy in \<^verbatim>\<open>api/verify-payment.js\<close>.\<close>

definition amountsMatch_api :: "jsval \<Rightarrow> jsval \<Rightarrow> exn + bool" where
  "amountsMatch_api clientAmountRaw txAmount =
     (if clientAmountRaw = JUndefined \<or> clientAmountRaw = JNull then Inr True
      else
        case Number clientAmountRaw of
          Inl e \<Rightarrow> Inl e
        | Inr parsed \<Rightarrow>
            if Number_isNaN parsed then Inr False
            else
              let asSmallest = Math_round parsed;
                  asMainTimes100 = Math_round (js_mul parsed (Finite 100))
              in case Number txAmount of
                   Inl e \<Rightarrow> Inl e
                 | Inr t \<Rightarrow>
                     if num_strict_eq t asSmallest then Inr True
                     else if num_strict_eq t asMainTimes100 then Inr True
                     else Inr False)"

section \<open>The two request handlers\<close>

subsection \<open>Requests, responses, the gateway\<close>

text \<open>
  A response is what the handler passes to \<^verbatim>\<open>res\<close>: the status code, the headers it
  sets itself, and the value given to \<^verbatim>\<open>res.json\<close> (or \<^verbatim>\<open>res.send\<close>).
\<close>

record response =
  status :: nat
  headers :: "(string \<times> string) list"
  body :: jsval

text \<open>
  The one effect of a handler besides its response is the call
  \<^verbatim>\<open>axios.get(`https://api.paystack.co/transaction/verify/${encodeURIComponent(reference)}`,
  {headers: {Authorization: `Bearer ${PAYSTACK_SECRET_KEY}`}, timeout: 10000})\<close>.
  A handler returns, with its response, the list of the calls it made; a call is
  recorded by the reference put into the URL and the key put into the header. The
  answer of the gateway is an input of the model: the promise resolves with a response
  whose \<^verbatim>\<open>data\<close> is given, or rejects (network error, timeout, a status that is not
  2xx) with an error of which \<^verbatim>\<open>err.response?.data\<close> and \<^verbatim>\<open>err.message\<close> are given.
\<close>

record gateway_call =
  call_reference :: jsval
  call_bearer :: string

datatype gateway_result = Resolves jsval | Rejects jsval jsval

type_synonym outcome = "response \<times> gateway_call list"

definition json_response :: "nat \<Rightarrow> jsval \<Rightarrow> response" where
  "json_response code v = \<lparr>status = code, headers = [], body = v\<rparr>"

definition error_body :: "jsval \<Rightarrow> jsval" where
  "error_body payload = JObj [(''verified'', JBool False), (''error'', payload)]"

definition result_body :: "bool \<Rightarrow> jsval \<Rightarrow> jsval" where
  "result_body verified tx = JObj [(''verified'', JBool verified), (''data'', tx)]"

subsection \<open>\<^verbatim>\<open>String.prototype.toUpperCase\<close>\<close>

text \<open>The letters \<^verbatim>\<open>a\<close> to \<^verbatim>\<open>z\<close> are put in upper case; JavaScript also maps the
  letters outside ASCII, which are outside this model.\<close>

definition upper_char :: "char \<Rightarrow> char" where
  "upper_char c =
     (let n = (of_char c :: nat)
      in if 97 \<le> n \<and> n \<le> 122 then char_of (n - 32) else c)"

definition toUpperCase :: "string \<Rightarrow> string" where
  "toUpperCase s = map upper_char s"

text \<open>
  \<^verbatim>\<open>v.toUpperCase()\<close>, where \<open>expr\<close> is the text of the receiver in the source (it
  appears in the message). Only a string has the method: a parsed JSON value of any
  other type has no callable property of that name.
\<close>

fun call_toUpperCase :: "string \<Rightarrow> jsval \<Rightarrow> exn + string" where
  "call_toUpperCase expr (JStr s) = Inr (toUpperCase s)"
| "call_toUpperCase expr JUndefined =
     Inl (TypeError ''Cannot read properties of undefined (reading toUpperCase)'')"
| "call_toUpperCase expr JNull =
     Inl (TypeError ''Cannot read properties of null (reading toUpperCase)'')"
| "call_toUpperCase expr v = Inl (TypeError (expr @ ''.toUpperCase is not a function''))"

subsection \<open>Destructuring the request body\<close>

text \<open>\<^verbatim>\<open>const { reference, email, currency, amount } = b\<close>: throws when \<open>b\<close> is
  \<^verbatim>\<open>undefined\<close> or \<^verbatim>\<open>null\<close>.\<close>

definition destructure :: "jsval \<Rightarrow> exn + (jsval \<times> jsval \<times> jsval \<times> jsval)" where
  "destructure b =
     (if b = JUndefined then
        Inl (TypeError ''Cannot destructure property 'reference' of 'req.body' as it is undefined.'')
      else if b = JNull then
        Inl (TypeError ''Cannot destructure property 'reference' of 'req.body' as it is null.'')
      else Inr (own_prop b ''reference'', own_prop b ''email'',
                own_prop b ''currency'', own_prop b ''amount''))"

definition missing_reference :: response where
  "missing_reference = json_response 400 (error_body (JStr ''Missing reference''))"

definition invalid_response :: response where
  "invalid_response = json_response 500 (error_body (JStr ''Invalid response from Paystack''))"

subsection \<open>The route \<^verbatim>\<open>app.post('/verify-payment')\<close> of \<^verbatim>\<open>server.js\<close>\<close>

text \<open>
  At start-up the server reads \<^verbatim>\<open>process.env.PAYSTACK_SECRET_KEY\<close> and exits with
  code 1 when it is not set (or empty); otherwise it listens, and the key is fixed for
  every request.

  The route runs after the CORS and the JSON middleware, which are not part of the
  model: its input is \<^verbatim>\<open>req.body\<close> as the JSON middleware left it. Writing to the
  console is not modelled either.
\<close>

datatype process_state = Exited nat | Listening string

definition server_startup :: "string option \<Rightarrow> process_state" where
  "server_startup env_key =
     (case env_key of
        None \<Rightarrow> Exited 1
      | Some k \<Rightarrow> if k = [] then Exited 1 else Listening k)"

text \<open>
  \<^verbatim>\<open>
  if (typeof amount !== 'undefined' && amount !== null) {
    const match = amountsMatch(amount, tx.amount);
    if (!match) { verified = false; }
  }\<close>
\<close>

definition amount_check :: "bool \<Rightarrow> jsval \<Rightarrow> jsval \<Rightarrow> exn + bool" where
  "amount_check verified amount tx =
     (if amount \<noteq> JUndefined \<and> amount \<noteq> JNull then
        (case get_prop tx ''amount'' of
           Inl e \<Rightarrow> Inl e
         | Inr tx_amount \<Rightarrow>
             (case amountsMatch amount tx_amount of
                Inl e \<Rightarrow> Inl e
              | Inr match \<Rightarrow> Inr (if \<not> match then False else verified)))
      else Inr verified)"

text \<open>
  \<^verbatim>\<open>
  if (currency && tx.currency && currency.toUpperCase() !== tx.currency.toUpperCase()) {
    verified = false;
  }\<close>
\<close>

definition currency_check :: "bool \<Rightarrow> jsval \<Rightarrow> jsval \<Rightarrow> exn + bool" where
  "currency_check verified currency tx =
     (if truthy currency then
        (case get_prop tx ''currency'' of
           Inl e \<Rightarrow> Inl e
         | Inr tx_currency \<Rightarrow>
             if truthy tx_currency then
               (case call_toUpperCase ''currency'' currency of
                  Inl e \<Rightarrow> Inl e
                | Inr cu \<Rightarrow>
                    (case call_toUpperCase ''tx.currency'' tx_currency of
                       Inl e \<Rightarrow> Inl e
                     | Inr tu \<Rightarrow> Inr (if cu \<noteq> tu then False else verified)))
             else Inr verified)
      else Inr verified)"

text \<open>
  What the route does with the gateway's answer (lines 92 to 121):
  \<^verbatim>\<open>
  const paystackData = response.data;
  if (!paystackData || !paystackData.data) {
    return res.status(500).json({ verified: false, error: 'Invalid response from Paystack' });
  }
  const tx = paystackData.data;
  let verified = (tx.status === 'success');
  ...
  return res.json({ verified, data: tx });\<close>
\<close>

definition server_verify :: "jsval \<Rightarrow> jsval \<Rightarrow> jsval \<Rightarrow> exn + response" where
  "server_verify paystackData currency amount =
     (if \<not> truthy paystackData then Inr invalid_response
      else
        case get_prop paystackData ''data'' of
          Inl e \<Rightarrow> Inl e
        | Inr tx \<Rightarrow>
            if \<not> truthy tx then Inr invalid_response
            else
              (case get_prop tx ''status'' of
                 Inl e \<Rightarrow> Inl e
               | Inr tx_status \<Rightarrow>
                   (case amount_check (tx_status = JStr ''success'') amount tx of
                      Inl e \<Rightarrow> Inl e
                    | Inr verified \<Rightarrow>
                        (case currency_check verified currency tx of
                           Inl e \<Rightarrow> Inl e
                         | Inr verified' \<Rightarrow>
                             Inr (json_response 200 (result_body verified' tx))))))"

text \<open>
  The body of the \<^verbatim>\<open>try\<close> block: the response it returns or the exception it
  throws, and the calls made until then. \<^verbatim>\<open>encodeURIComponent(reference)\<close> converts
  the reference to a string first, which can throw.
\<close>

definition server_try :: "string \<Rightarrow> gateway_result \<Rightarrow> jsval \<Rightarrow> (exn + response) \<times> gateway_call list" where
  "server_try key gw req_body =
     (case destructure req_body of
        Inl e \<Rightarrow> (Inl e, [])
      | Inr (reference, email, currency, amount) \<Rightarrow>
          if \<not> truthy reference then (Inr missing_reference, [])
          else if to_primitive_throws reference then (Inl cannot_convert, [])
          else
            (case gw of
               Rejects d m \<Rightarrow>
                 (Inl (AxiosError d m), [\<lparr>call_reference = reference, call_bearer = key\<rparr>])
             | Resolves paystackData \<Rightarrow>
                 (server_verify paystackData currency amount,
                  [\<lparr>call_reference = reference, call_bearer = key\<rparr>])))"

text \<open>
  \<^verbatim>\<open>
  } catch (err) {
    return res.status(500).json({ verified: false, error: err.response?.data || err.message });
  }\<close>
\<close>

definition server_handler :: "string \<Rightarrow> gateway_result \<Rightarrow> jsval \<Rightarrow> outcome" where
  "server_handler key gw req_body =
     (case server_try key gw req_body of
        (Inr r, calls) \<Rightarrow> (r, calls)
      | (Inl err, calls) \<Rightarrow>
          (json_response 500 (error_body (js_or (err_response_data err) (err_message err))),
           calls))"

subsection \<open>The serverless function of \<^verbatim>\<open>api/verify-payment.js\<close>\<close>

record request =
  req_method :: string
  req_body :: jsval

definition amount_check_api :: "bool \<Rightarrow> jsval \<Rightarrow> jsval \<Rightarrow> exn + bool" where
  "amount_check_api verified amount tx =
     (if amount \<noteq> JUndefined \<and> amount \<noteq> JNull then
        (case get_prop tx ''amount'' of
           Inl e \<Rightarrow> Inl e
         | Inr tx_amount \<Rightarrow>
             (case amountsMatch_api amount tx_amount of
                Inl e \<Rightarrow> Inl e
              | Inr match \<Rightarrow> Inr (if \<not> match then False else verified)))
      else Inr verified)"

definition currency_check_api :: "bool \<Rightarrow> jsval \<Rightarrow> jsval \<Rightarrow> exn + bool" where
  "currency_check_api verified currency tx =
     (if truthy currency then
        (case get_prop tx ''currency'' of
           Inl e \<Rightarrow> Inl e
         | Inr tx_currency \<Rightarrow>
             if truthy tx_currency then
               (case call_toUpperCase ''currency'' currency of
                  Inl e \<Rightarrow> Inl e
                | Inr cu \<Rightarrow>
                    (case call_toUpperCase ''tx.currency'' tx_currency of
                       Inl e \<Rightarrow> Inl e
                     | Inr tu \<Rightarrow> Inr (if cu \<noteq> tu then False else verified)))
             else Inr verified)
      else Inr verified)"

text \<open>Lines 191 to 215; the last statement is
  \<^verbatim>\<open>return res.status(200).json({ verified, data: tx })\<close>.\<close>

definition api_verify :: "jsval \<Rightarrow> jsval \<Rightarrow> jsval \<Rightarrow> exn + response" where
  "api_verify paystackData currency amount =
     (if \<not> truthy paystackData then Inr invalid_response
      else
        case get_prop paystackData ''data'' of
          Inl e \<Rightarrow> Inl e
        | Inr tx \<Rightarrow>
            if \<not> truthy tx then Inr invalid_response
            else
              (case get_prop tx ''status'' of
                 Inl e \<Rightarrow> Inl e
               | Inr tx_status \<Rightarrow>
                   (case amount_check_api (tx_status = JStr ''success'') amount tx of
                      Inl e \<Rightarrow> Inl e
                    | Inr verified \<Rightarrow>
                        (case currency_check_api verified currency tx of
                           Inl e \<Rightarrow> Inl e
                         | Inr verified' \<Rightarrow>
                             Inr (json_response 200 (result_body verified' tx))))))"

text \<open>
  The \<^verbatim>\<open>try\<close> block. The key is read from the environment at each request, before
  the body is looked at; the body is \<^verbatim>\<open>req.body || {}\<close>.
\<close>

definition api_try :: "string option \<Rightarrow> gateway_result \<Rightarrow> jsval \<Rightarrow> (exn + response) \<times> gateway_call list" where
  "api_try env_key gw b =
     (case env_key of
        None \<Rightarrow> (Inr (json_response 500 (error_body (JStr ''Server misconfiguration''))), [])
      | Some key \<Rightarrow>
          if key = [] then
            (Inr (json_response 500 (error_body (JStr ''Server misconfiguration''))), [])
          else
            (case destructure (js_or b (JObj [])) of
               Inl e \<Rightarrow> (Inl e, [])
             | Inr (reference, email, currency, amount) \<Rightarrow>
                 if \<not> truthy reference then (Inr missing_reference, [])
                 else if to_primitive_throws reference then (Inl cannot_convert, [])
                 else
                   (case gw of
                      Rejects d m \<Rightarrow>
                        (Inl (AxiosError d m),
                         [\<lparr>call_reference = reference, call_bearer = key\<rparr>])
                    | Resolves paystackData \<Rightarrow>
                        (api_verify paystackData currency amount,
                         [\<lparr>call_reference = reference, call_bearer = key\<rparr>]))))"

text \<open>
  The exported function: the answer to a preflight, the rejection of every other
  method than \<^verbatim>\<open>POST\<close>, then the \<^verbatim>\<open>try\<close> block and its handler
  \<^verbatim>\<open>
  } catch (err) {
    const payload = err.response?.data || err.message || 'Unknown error';
    return res.status(500).json({ verified: false, error: payload });
  }\<close>
\<close>

definition api_handler :: "string option \<Rightarrow> gateway_result \<Rightarrow> request \<Rightarrow> outcome" where
  "api_handler env_key gw req =
     (if req_method req = ''OPTIONS'' then
        (\<lparr>status = 204,
          headers = [(''Access-Control-Allow-Origin'', ''*''),
                     (''Access-Control-Allow-Methods'', ''POST, OPTIONS''),
                     (''Access-Control-Allow-Headers'', ''Content-Type'')],
          body = JStr []\<rparr>, [])
      else if req_method req \<noteq> ''POST'' then
        (json_response 405 (error_body (JStr ''Method Not Allowed'')), [])
      else
        (case api_try env_key gw (req_body req) of
           (Inr r, calls) \<Rightarrow> (r, calls)
         | (Inl err, calls) \<Rightarrow>
             (json_response 500
                (error_body (js_or (js_or (err_response_data err) (err_message err))
                                   (JStr ''Unknown error''))),
              calls)))"

section \<open>Notions used in the statements\<close>

text \<open>The \<^verbatim>\<open>verified\<close> flag and the \<^verbatim>\<open>data\<close> payload of a response.\<close>

definition verified_flag :: "response \<Rightarrow> jsval" where
  "verified_flag r = own_prop (body r) ''verified''"

definition data_payload :: "response \<Rightarrow> jsval" where
  "data_payload r = own_prop (body r) ''data''"

text \<open>The caller supplied an amount: the property is there and is not \<^verbatim>\<open>null\<close>.\<close>

definition amount_supplied :: "jsval \<Rightarrow> bool" where
  "amount_supplied a = (a \<noteq> JUndefined \<and> a \<noteq> JNull)"

text \<open>Two values are strings that are equal up to the case of their letters.\<close>

fun same_currency :: "jsval \<Rightarrow> jsval \<Rightarrow> bool" where
  "same_currency (JStr s) (JStr t) = (toUpperCase s = toUpperCase t)"
| "same_currency c t = False"

text \<open>The transaction record of the gateway's answer, \<^verbatim>\<open>response.data.data\<close>
  (\<^verbatim>\<open>undefined\<close> when there is none).\<close>

fun gateway_tx :: "gateway_result \<Rightarrow> jsval" where
  "gateway_tx (Resolves paystackData) = own_prop paystackData ''data''"
| "gateway_tx (Rejects d m) = JUndefined"

text \<open>The gateway's answer has the expected shape: a body with an inner
  \<^verbatim>\<open>data\<close> object.\<close>

fun well_formed :: "gateway_result \<Rightarrow> bool" where
  "well_formed (Resolves paystackData) =
     (truthy paystackData \<and> truthy (own_prop paystackData ''data''))"
| "well_formed (Rejects d m) = False"

text \<open>A value is a string whenever it is truthy (a currency code, or none).\<close>

fun string_if_truthy :: "jsval \<Rightarrow> bool" where
  "string_if_truthy (JStr s) = True"
| "string_if_truthy v = (\<not> truthy v)"

text \<open>The request reaches the gateway: the body is there and its reference is truthy
  and converts to a string.\<close>

definition usable_reference :: "jsval \<Rightarrow> bool" where
  "usable_reference b =
     (truthy (own_prop b ''reference'') \<and> \<not> to_primitive_throws (own_prop b ''reference''))"

definition post :: "jsval \<Rightarrow> request" where
  "post b = \<lparr>req_method = ''POST'', req_body = b\<rparr>"

section \<open>Facts about doubles\<close>

subsection \<open>Powers of two and the binary logarithm\<close>

lemma powi_pos: "0 < (2::rat) powi k"
  by (simp add: zero_less_power_int)

lemma powi_mono: "a \<le> b \<Longrightarrow> (2::rat) powi a \<le> 2 powi b"
  by (simp add: power_int_increasing)

lemma powi_less_cancel: "(2::rat) powi a < 2 powi b \<Longrightarrow> a < b"
  using powi_mono [of b a] by (meson not_less)

lemma bitlen_powi:
  assumes "0 < n"
  shows "(2::rat) powi (bitlen n - 1) \<le> of_int n" and "of_int n < (2::rat) powi bitlen n"
proof -
  have b: "2 ^ nat (bitlen n - 1) \<le> n" "n < 2 ^ nat (bitlen n)"
    using bitlen_bounds [OF assms] by auto
  have pos: "1 \<le> bitlen n"
    using assms bitlen_eq_zero_iff [of n] bitlen_nonneg [of n] by linarith
  have "(2::rat) powi (bitlen n - 1) = 2 ^ nat (bitlen n - 1)"
    using pos by (simp add: power_int_def)
  also have "\<dots> = of_int (2 ^ nat (bitlen n - 1))" by simp
  also have "\<dots> \<le> of_int n" using b(1) by (simp only: of_int_le_iff)
  finally show "(2::rat) powi (bitlen n - 1) \<le> of_int n" .
  have "(of_int n :: rat) < of_int (2 ^ nat (bitlen n))" using b(2) by (simp only: of_int_less_iff)
  also have "\<dots> = 2 ^ nat (bitlen n)" by simp
  also have "\<dots> = (2::rat) powi bitlen n" using pos by (simp add: power_int_def)
  finally show "of_int n < (2::rat) powi bitlen n" .
qed

lemma ilog2_bounds:
  assumes "0 < q"
  shows "2 powi ilog2 q \<le> q \<and> q < 2 powi (ilog2 q + 1)"
proof -
  obtain n d where nd: "quotient_of q = (n, d)" by (cases "quotient_of q")
  then have d: "0 < d" and q: "q = of_int n / of_int d"
    using quotient_of_denom_pos quotient_of_div by blast+
  have n: "0 < n" using assms d q by (simp add: zero_less_divide_iff)
  define k where "k = bitlen n - bitlen d"
  have dr: "0 < (of_int d :: rat)" using d by simp
  have up: "q < 2 powi (k + 1)"
  proof -
    have "of_int n < (2::rat) powi bitlen n" using bitlen_powi(2) [OF n] .
    also have "\<dots> = 2 powi (k + 1) * 2 powi (bitlen d - 1)"
      by (simp add: k_def power_int_add [symmetric])
    also have "\<dots> \<le> 2 powi (k + 1) * of_int d"
      using bitlen_powi(1) [OF d] powi_pos [of "k + 1"] by (simp add: mult_left_mono)
    finally show ?thesis using dr by (simp add: q pos_divide_less_eq)
  qed
  have lo: "2 powi (k - 1) < q"
  proof -
    have "2 powi (k - 1) * of_int d < 2 powi (k - 1) * (2::rat) powi bitlen d"
      using bitlen_powi(2) [OF d] powi_pos [of "k - 1"] by (simp add: mult_strict_left_mono)
    also have "\<dots> = 2 powi (bitlen n - 1)"
      by (simp add: k_def power_int_add [symmetric])
    also have "\<dots> \<le> of_int n" using bitlen_powi(1) [OF n] .
    finally show ?thesis using dr by (simp add: q pos_less_divide_eq)
  qed
  have il: "ilog2 q = (if 2 powi k \<le> q then k else k - 1)"
    by (simp add: ilog2_def nd k_def Let_def)
  show ?thesis
  proof (cases "2 powi k \<le> q")
    case True
    then show ?thesis using up il by simp
  next
    case False
    then show ?thesis using lo il by simp
  qed
qed

lemma ilog2_unique:
  assumes "0 < q" "2 powi e \<le> q" "q < 2 powi (e + 1)"
  shows "ilog2 q = e"
proof -
  note b = ilog2_bounds [OF assms(1)]
  have "2 powi e < (2::rat) powi (ilog2 q + 1)" using assms(2) b by linarith
  then have 1: "e < ilog2 q + 1" by (rule powi_less_cancel)
  have "2 powi ilog2 q < (2::rat) powi (e + 1)" using assms(3) b by linarith
  then have 2: "ilog2 q < e + 1" by (rule powi_less_cancel)
  from 1 2 show ?thesis by simp
qed

subsection \<open>Rounding\<close>

lemma round_half_even_error: "\<bar>of_int (round_half_even x) - x\<bar> \<le> 1 / 2"
proof -
  have "of_int \<lfloor>x\<rfloor> \<le> x" "x < of_int \<lfloor>x\<rfloor> + 1" by linarith+
  then show ?thesis
    by (auto simp: round_half_even_def Let_def)
qed

lemma round_half_even_int: "round_half_even (of_int n) = n"
  by (simp add: round_half_even_def)

lemma round_half_even_eval:
  assumes "of_int m - 1 / 2 < x" "x < of_int m + 1 / 2"
  shows "round_half_even x = m"
proof (cases "of_int m \<le> x")
  case True
  then have "\<lfloor>x\<rfloor> = m" using assms(2) by (intro floor_unique) simp_all
  then show ?thesis using assms(2) by (simp add: round_half_even_def)
next
  case False
  then have "\<lfloor>x\<rfloor> = m - 1" using assms(1) by (intro floor_unique) simp_all
  then show ?thesis using assms(1) by (simp add: round_half_even_def)
qed

lemma rounded_close:
  "\<bar>of_int (round_half_even (a / 2 powi (e - 52))) * 2 powi (e - 52) - a\<bar> \<le> 2 powi (e - 53)"
proof -
  define u :: rat where "u = 2 powi (e - 52)"
  have u: "0 < u" by (simp add: u_def powi_pos)
  have "of_int (round_half_even (a / u)) * u - a = (of_int (round_half_even (a / u)) - a / u) * u"
    using u by (simp add: left_diff_distrib)
  then have "\<bar>of_int (round_half_even (a / u)) * u - a\<bar>
      = \<bar>of_int (round_half_even (a / u)) - a / u\<bar> * u"
    using u by (simp only: abs_mult abs_of_pos)
  also have "\<dots> \<le> 1 / 2 * u"
    using round_half_even_error [of "a / u"] u by (simp add: mult_right_mono)
  also have "\<dots> = 2 powi (e - 53)"
    by (simp add: u_def power_int_diff)
  finally show ?thesis by (simp add: u_def)
qed

text \<open>In the normal range \<open>to_double\<close> rounds the significand at the exponent of its
  argument, and below \<open>2\<^sup>k\<close> the error is at most \<open>2\<^sup>k\<^sup>-\<^sup>5\<^sup>4\<close>.\<close>

lemma to_double_normal:
  assumes "0 < a" "2 powi e \<le> a" "a < 2 powi (e + 1)" "- 1022 \<le> e" "e \<le> 1022"
    and "q = a \<or> q = - a"
  shows "to_double q
           = Finite (sgn q * (of_int (round_half_even (a / 2 powi (e - 52))) * 2 powi (e - 52)))"
proof -
  have a: "\<bar>q\<bar> = a" and q0: "q \<noteq> 0" using assms(1,6) by auto
  have il: "ilog2 a = e" using ilog2_unique assms(1-3) by simp
  define w where "w = of_int (round_half_even (a / 2 powi (e - 52))) * (2::rat) powi (e - 52)"
  have "\<bar>w - a\<bar> \<le> 2 powi (e - 53)"
    unfolding w_def by (rule rounded_close)
  moreover have "(2::rat) powi (e - 53) \<le> 2 powi e" by (intro powi_mono) simp
  ultimately have "w \<le> a + a" using assms(2) by linarith
  also have "\<dots> < 2 * 2 powi (e + 1)" using assms(3) by simp
  also have "\<dots> = 2 powi (e + 2)" by (simp add: power_int_add)
  also have "\<dots> \<le> 2 powi 1024" using assms(5) by (intro powi_mono) simp
  finally have "\<not> 2 powi 1024 \<le> w" by simp
  then show ?thesis
    using q0 assms(4) by (simp add: to_double_def a il Let_def w_def max_def)
qed

lemma to_double_error:
  assumes "q \<noteq> 0" "2 powi (- 1022) \<le> \<bar>q\<bar>" "\<bar>q\<bar> < 2 powi k" "k \<le> 1023"
  shows "\<exists>v. to_double q = Finite v \<and> \<bar>v - q\<bar> \<le> 2 powi (k - 54)"
proof -
  define a where "a = \<bar>q\<bar>"
  define e where "e = ilog2 a"
  have a: "0 < a" using assms(1) by (simp add: a_def)
  have b: "2 powi e \<le> a" "a < 2 powi (e + 1)" using ilog2_bounds [OF a] by (simp_all add: e_def)
  have "2 powi (- 1022) < (2::rat) powi (e + 1)" using assms(2) b(2) by (simp add: a_def)
  then have lo: "- 1022 \<le> e" using powi_less_cancel by fastforce
  have "2 powi e < (2::rat) powi k" using assms(3) b(1) by (simp add: a_def)
  then have ek: "e < k" by (rule powi_less_cancel)
  then have hi: "e \<le> 1022" using assms(4) by simp
  define w where "w = of_int (round_half_even (a / 2 powi (e - 52))) * (2::rat) powi (e - 52)"
  have "q = a \<or> q = - a" by (cases "0 \<le> q") (simp_all add: a_def)
  then have td: "to_double q = Finite (sgn q * w)"
    unfolding w_def using to_double_normal [OF a b lo hi, of q] by simp
  have "\<bar>sgn q * w - q\<bar> = \<bar>sgn q * (w - a)\<bar>"
    by (simp add: a_def right_diff_distrib mult_sgn_abs)
  also have "\<dots> = \<bar>w - a\<bar>" using assms(1) by (simp add: abs_mult abs_sgn_eq)
  also have "\<dots> \<le> 2 powi (e - 53)" unfolding w_def by (rule rounded_close)
  also have "\<dots> \<le> 2 powi (k - 54)" using ek by (intro powi_mono) simp
  finally show ?thesis using td by simp
qed

text \<open>Every integer below \<open>2\<^sup>5\<^sup>3\<close> in magnitude is a double.\<close>

lemma to_double_int:
  assumes "\<bar>n\<bar> < 2 ^ 53"
  shows "to_double (of_int n) = Finite (of_int n)"
proof (cases "n = 0")
  case True
  then show ?thesis by (simp add: to_double_def)
next
  case False
  define a :: rat where "a = of_int \<bar>n\<bar>"
  define e where "e = ilog2 a"
  have a: "0 < a" using False by (simp add: a_def)
  have b: "2 powi e \<le> a" "a < 2 powi (e + 1)" using ilog2_bounds [OF a] by (simp_all add: e_def)
  have "1 \<le> a" using False by (simp add: a_def)
  then have "(2::rat) powi 0 < 2 powi (e + 1)" using b(2) by simp
  then have lo: "0 \<le> e" using powi_less_cancel by fastforce
  have "a < 2 ^ 53" using assms unfolding a_def
    by (metis of_int_less_iff of_int_numeral of_int_power)
  then have "2 powi e < (2::rat) powi 53" using b(1) by simp
  then have hi: "e \<le> 52" using powi_less_cancel by fastforce
  define p :: rat where "p = 2 ^ nat (52 - e)"
  have p: "0 < p" by (simp add: p_def)
  have "(2::rat) powi (52 - e) = p" using hi by (simp add: p_def power_int_def)
  then have u: "(2::rat) powi (e - 52) = 1 / p"
    using power_int_minus [of "2::rat" "52 - e"] by (simp add: inverse_eq_divide)
  have "a / 2 powi (e - 52) = of_int (\<bar>n\<bar> * 2 ^ nat (52 - e))"
    by (simp add: u a_def p_def)
  then have "round_half_even (a / 2 powi (e - 52)) = \<bar>n\<bar> * 2 ^ nat (52 - e)"
    by (simp only: round_half_even_int)
  moreover have "of_int (\<bar>n\<bar> * 2 ^ nat (52 - e)) * (2::rat) powi (e - 52) = a"
    using p by (simp add: u a_def p_def)
  moreover have "(of_int n :: rat) = a \<or> (of_int n :: rat) = - a"
    by (cases "0 \<le> n") (simp_all add: a_def)
  ultimately have "to_double (of_int n) = Finite (sgn (of_int n) * a)"
    using to_double_normal [OF a b, of "of_int n"] lo hi by simp
  moreover have "sgn (of_int n :: rat) * a = of_int n"
    by (cases "0 \<le> n") (auto simp: a_def sgn_if)
  ultimately show ?thesis by simp
qed

lemma to_double_not_NaN: "to_double q \<noteq> NaN"
  by (simp add: to_double_def Let_def)

lemma small_powers:
  "(2::rat) powi (- 1022) \<le> 1 / 128"
proof -
  have "(2::rat) powi (- 1022) \<le> 2 powi (- 7)" by (intro powi_mono) simp
  then show "(2::rat) powi (- 1022) \<le> 1 / 128" by (simp add: power_int_minus)
qed

subsection \<open>Some values\<close>

lemma to_double_100_4: "to_double (1004 / 10) = Finite (3532510957718733 / 35184372088832)"
proof -
  have "to_double (1004 / 10)
     = Finite (sgn (1004 / 10) * (of_int (round_half_even ((1004 / 10) / 2 powi (6 - 52))) * 2 powi (6 - 52)))"
    by (rule to_double_normal) simp_all
  moreover have "round_half_even ((1004 / 10) / 2 powi (6 - 52)) = 7065021915437466"
    by (rule round_half_even_eval) (simp_all add: power_int_minus)
  ultimately show ?thesis by (simp add: power_int_minus)
qed

lemma to_double_cex: "to_double (3518437208883202 / 100) = Finite (4503599627370499 / 128)"
proof -
  have "to_double (3518437208883202 / 100)
     = Finite (sgn (3518437208883202 / 100)
         * (of_int (round_half_even ((3518437208883202 / 100) / 2 powi (45 - 52))) * 2 powi (45 - 52)))"
    by (rule to_double_normal) simp_all
  moreover have "round_half_even ((3518437208883202 / 100) / 2 powi (45 - 52)) = 4503599627370499"
    by (rule round_half_even_eval) (simp_all add: power_int_minus)
  ultimately show ?thesis by (simp add: power_int_minus)
qed

lemma to_double_cex_times_100:
  "to_double (112589990684262475 / 32) = Finite (7036874417766405 / 2)"
proof -
  have "to_double (112589990684262475 / 32)
     = Finite (sgn (112589990684262475 / 32)
         * (of_int (round_half_even ((112589990684262475 / 32) / 2 powi (51 - 52))) * 2 powi (51 - 52)))"
    by (rule to_double_normal) simp_all
  moreover have "round_half_even ((112589990684262475 / 32) / 2 powi (51 - 52)) = 7036874417766405"
    by (rule round_half_even_eval) (simp_all add: power_int_minus)
  ultimately show ?thesis by (simp add: power_int_minus)
qed

lemma floor_cex: "\<lfloor>(4503599627370563 / 128 :: rat)\<rfloor> = 35184372088832"
  by (rule floor_unique) simp_all

lemmas parse_defs = StringToNumber_def trim_ws_def is_ws_def parse_numeric_def parse_unsigned_def
  is_digit_def digits_def digit_of_def parse_exponent_def Let_def

lemma StringToNumber_75000: "StringToNumber ''75000.00'' = to_double 75000"
  by (simp add: parse_defs power_int_minus)

lemma StringToNumber_abc: "StringToNumber ''abc'' = NaN"
  by (simp add: parse_defs)

section \<open>Facts about \<^verbatim>\<open>amountsMatch\<close>\<close>

lemma amountsMatch_api_eq: "amountsMatch_api = amountsMatch"
  by (simp add: fun_eq_iff amountsMatch_api_def amountsMatch_def)

lemma times_100_not_NaN: "p \<noteq> NaN \<Longrightarrow> js_mul p (Finite 100) \<noteq> NaN"
  by (cases p) (simp_all add: to_double_not_NaN)

lemma Math_round_not_NaN: "p \<noteq> NaN \<Longrightarrow> Math_round p \<noteq> NaN"
  by (cases p) simp_all

lemma num_strict_eq_iff: "x \<noteq> NaN \<Longrightarrow> num_strict_eq t x = (t = x)"
  by (auto simp: num_strict_eq_def)

lemma Math_round_near:
  assumes "of_int A - 1 / 2 \<le> x" "x < of_int A + 1 / 2"
  shows "Math_round (Finite x) = Finite (of_int A)"
proof -
  have "\<lfloor>x + 1 / 2\<rfloor> = A" using assms by (intro floor_unique) simp_all
  then show ?thesis by simp
qed

lemma amountsMatch_numbers:
  assumes "a \<noteq> JUndefined" "a \<noteq> JNull" "Number a = Inr p"
  shows "amountsMatch a (JNum t)
           = Inr (p \<noteq> NaN \<and> (t = Math_round p \<or> t = Math_round (js_mul p (Finite 100))))"
  using assms
  by (simp add: amountsMatch_def Number_isNaN_def Let_def num_strict_eq_iff
      Math_round_not_NaN times_100_not_NaN)

lemma amountsMatch_not_supplied: "\<not> amount_supplied a \<Longrightarrow> amountsMatch a t = Inr True"
  by (auto simp: amountsMatch_def amount_supplied_def)

lemma Number_convertible:
  "\<not> to_primitive_throws v \<Longrightarrow> \<exists>n. Number v = Inr n"
  by (cases v) auto

lemma amountsMatch_convertible:
  "\<not> to_primitive_throws a \<Longrightarrow> \<not> to_primitive_throws t \<Longrightarrow> \<exists>m. amountsMatch a t = Inr m"
  using Number_convertible [of a] Number_convertible [of t]
  by (auto simp: amountsMatch_def Let_def)

lemma amountsMatch_same_integer:
  "amountsMatch (JNum (Finite (of_int A))) (JNum (Finite (of_int A))) = Inr True"
proof -
  have "Math_round (Finite (of_int A)) = Finite (of_int A)"
    by (rule Math_round_near) simp_all
  then show ?thesis by (simp add: amountsMatch_numbers)
qed

lemma match_7500000:
  "amountsMatch (JNum (Finite 7500000)) (JNum (Finite 7500000)) = Inr True"
  "amountsMatch (JNum (Finite 75000)) (JNum (Finite 7500000)) = Inr True"
  "amountsMatch (JNum (Finite 12345)) (JNum (Finite 7500000)) = Inr False"
  "amountsMatch_api (JNum (Finite 7500000)) (JNum (Finite 7500000)) = Inr True"
  "amountsMatch_api (JNum (Finite 75000)) (JNum (Finite 7500000)) = Inr True"
  "amountsMatch_api (JNum (Finite 12345)) (JNum (Finite 7500000)) = Inr False"
proof -
  have m: "to_double 7500000 = Finite 7500000" "to_double 1234500 = Finite 1234500"
       "to_double 750000000 = Finite 750000000"
    using to_double_int [of 7500000] to_double_int [of 1234500] to_double_int [of 750000000]
    by simp_all
  have r: "Math_round (Finite 7500000) = Finite 7500000"
          "Math_round (Finite 1234500) = Finite 1234500"
          "Math_round (Finite 750000000) = Finite 750000000"
          "Math_round (Finite 75000) = Finite 75000"
          "Math_round (Finite 12345) = Finite 12345"
    using Math_round_near [of 7500000 7500000] Math_round_near [of 1234500 1234500]
      Math_round_near [of 75000 75000] Math_round_near [of 12345 12345]
      Math_round_near [of 750000000 750000000] by simp_all
  show "amountsMatch (JNum (Finite 7500000)) (JNum (Finite 7500000)) = Inr True"
    "amountsMatch (JNum (Finite 75000)) (JNum (Finite 7500000)) = Inr True"
    "amountsMatch (JNum (Finite 12345)) (JNum (Finite 7500000)) = Inr False"
    by (simp_all add: amountsMatch_numbers m r del: Math_round.simps)
  then show "amountsMatch_api (JNum (Finite 7500000)) (JNum (Finite 7500000)) = Inr True"
    "amountsMatch_api (JNum (Finite 75000)) (JNum (Finite 7500000)) = Inr True"
    "amountsMatch_api (JNum (Finite 12345)) (JNum (Finite 7500000)) = Inr False"
    by (simp_all add: amountsMatch_api_eq)
qed

text \<open>The hundredth of an amount below \<open>100 \<cdot> 2\<^sup>4\<^sup>5\<close>, once a double and multiplied by
  100 again, is less than one half away from the amount: the quotient is below
  \<open>2\<^sup>4\<^sup>5\<close>, so its double is within \<open>2\<^sup>-\<^sup>9\<close> of it, and the product is below \<open>2\<^sup>5\<^sup>2\<close> and
  within \<open>100 \<cdot> 2\<^sup>-\<^sup>9\<close> of the amount, so its double is within \<open>2\<^sup>-\<^sup>2\<close> of it.\<close>

lemma hundredth_round_trip:
  assumes "\<bar>A\<bar> < 100 * 2 ^ 45"
  shows "\<exists>y. js_mul (to_double (of_int A / 100)) (Finite 100) = Finite y
             \<and> \<bar>y - of_int A\<bar> < 1 / 2"
proof (cases "A = 0")
  case True
  then show ?thesis by (simp add: to_double_def)
next
  case False
  define B :: rat where "B = \<bar>of_int A\<bar>"
  have B1: "1 \<le> B" using False by (simp add: B_def)
  have "(of_int \<bar>A\<bar> :: rat) < of_int (100 * 2 ^ 45)" using assms by (simp only: of_int_less_iff)
  then have B2: "B < 100 * 2 ^ 45" by (simp add: B_def)
  define q :: rat where "q = of_int A / 100"
  have aq: "\<bar>q\<bar> = B / 100" by (simp add: q_def B_def)
  have "q \<noteq> 0" using False by (simp add: q_def)
  moreover have "2 powi (- 1022) \<le> \<bar>q\<bar>" using small_powers B1 by (simp add: aq)
  moreover have "\<bar>q\<bar> < 2 powi 45" using B2 by (simp add: aq)
  ultimately obtain x where x: "to_double q = Finite x" and ex: "\<bar>x - q\<bar> \<le> 2 powi (45 - 54)"
    using to_double_error [of q 45] by auto
  define p where "p = x * 100"
  have "p - of_int A = (x - q) * 100" by (simp add: p_def q_def left_diff_distrib)
  then have "\<bar>p - of_int A\<bar> = \<bar>(x - q) * 100\<bar>" by (simp only:)
  then have "\<bar>p - of_int A\<bar> = \<bar>x - q\<bar> * 100" by (simp only: abs_mult)
  then have ep: "\<bar>p - of_int A\<bar> \<le> 25 / 128" using ex by (simp add: power_int_minus)
  have pl: "B - 25 / 128 \<le> \<bar>p\<bar>" and pu: "\<bar>p\<bar> \<le> B + 25 / 128"
    using ep unfolding B_def by linarith+
  have "p \<noteq> 0" using pl B1 by auto
  moreover have "2 powi (- 1022) \<le> \<bar>p\<bar>" using small_powers pl B1 by simp
  moreover have "\<bar>p\<bar> < 2 powi 52" using pu B2 by simp
  ultimately obtain y where y: "to_double p = Finite y" and ey: "\<bar>y - p\<bar> \<le> 2 powi (52 - 54)"
    using to_double_error [of p 52] by auto
  have "\<bar>y - p\<bar> \<le> 1 / 4" using ey by (simp add: power_int_minus)
  then have "\<bar>y - of_int A\<bar> < 1 / 2" using ep by linarith
  moreover have "js_mul (to_double (of_int A / 100)) (Finite 100) = Finite y"
    using x y by (simp add: q_def p_def)
  ultimately show ?thesis by blast
qed

section \<open>Facts about the handlers\<close>

subsection \<open>The two copies of the verification step are the same function\<close>

lemma get_prop_truthy: "truthy v \<Longrightarrow> get_prop v k = Inr (own_prop v k)"
  by (cases v) (simp_all add: get_prop_def)

lemma amount_check_api_eq: "amount_check_api = amount_check"
  unfolding fun_eq_iff amount_check_api_def amount_check_def amountsMatch_api_eq by simp

lemma currency_check_api_eq: "currency_check_api = currency_check"
  by (simp add: fun_eq_iff currency_check_api_def currency_check_def)

lemma api_verify_eq: "api_verify = server_verify"
  unfolding fun_eq_iff api_verify_def server_verify_def amount_check_api_eq currency_check_api_eq
  by simp

subsection \<open>The path of a request\<close>

lemma server_startup_listening:
  "server_startup env_key = Listening k \<longleftrightarrow> env_key = Some k \<and> k \<noteq> []"
  by (auto simp: server_startup_def split: option.splits)

lemma destructure_present:
  "b \<noteq> JUndefined \<Longrightarrow> b \<noteq> JNull \<Longrightarrow>
   destructure b = Inr (own_prop b ''reference'', own_prop b ''email'',
                        own_prop b ''currency'', own_prop b ''amount'')"
  by (simp add: destructure_def)

lemma js_or_empty_object:
  "js_or b (JObj []) \<noteq> JUndefined \<and> js_or b (JObj []) \<noteq> JNull"
  by (cases b) (auto simp: js_or_def)

lemma own_prop_js_or: "own_prop (js_or b (JObj [])) k = own_prop b k"
  by (cases b) (auto simp: js_or_def)

lemma server_missing:
  "b \<noteq> JUndefined \<Longrightarrow> b \<noteq> JNull \<Longrightarrow> \<not> truthy (own_prop b ''reference'') \<Longrightarrow>
   server_handler key gw b = (missing_reference, [])"
  by (simp add: server_handler_def server_try_def destructure_present)

lemma api_missing:
  "key \<noteq> [] \<Longrightarrow> \<not> truthy (own_prop b ''reference'') \<Longrightarrow>
   api_handler (Some key) gw (post b) = (missing_reference, [])"
  by (simp add: api_handler_def api_try_def destructure_present js_or_empty_object
      own_prop_js_or post_def)

lemma api_unconfigured:
  "env_key = None \<or> env_key = Some [] \<Longrightarrow>
   api_handler env_key gw (post b)
     = (json_response 500 (error_body (JStr ''Server misconfiguration'')), [])"
  by (auto simp: api_handler_def api_try_def post_def)

lemma server_absent_body:
  "b = JUndefined \<or> b = JNull \<Longrightarrow>
   status (fst (server_handler key gw b)) = 500 \<and> snd (server_handler key gw b) = []"
  by (auto simp: server_handler_def server_try_def destructure_def json_response_def)

lemma api_absent_body:
  "key \<noteq> [] \<Longrightarrow> b = JUndefined \<or> b = JNull \<Longrightarrow>
   api_handler (Some key) gw (post b) = (missing_reference, [])"
  by (auto simp: api_handler_def api_try_def destructure_def post_def js_or_def)

lemma server_try_reaches:
  "b \<noteq> JUndefined \<Longrightarrow> b \<noteq> JNull \<Longrightarrow> usable_reference b \<Longrightarrow>
   server_try key gw b =
     (case gw of
        Rejects d m \<Rightarrow> Inl (AxiosError d m)
      | Resolves pd \<Rightarrow> server_verify pd (own_prop b ''currency'') (own_prop b ''amount''),
      [\<lparr>call_reference = own_prop b ''reference'', call_bearer = key\<rparr>])"
  by (simp add: server_try_def destructure_present usable_reference_def
      split: gateway_result.splits)

lemma api_try_reaches:
  "key \<noteq> [] \<Longrightarrow> usable_reference b \<Longrightarrow>
   api_try (Some key) gw b =
     (case gw of
        Rejects d m \<Rightarrow> Inl (AxiosError d m)
      | Resolves pd \<Rightarrow> server_verify pd (own_prop b ''currency'') (own_prop b ''amount''),
      [\<lparr>call_reference = own_prop b ''reference'', call_bearer = key\<rparr>])"
  by (simp add: api_try_def destructure_present js_or_empty_object own_prop_js_or
      usable_reference_def api_verify_eq split: gateway_result.splits)


lemma server_try_called:
  "snd (server_try key gw b) \<noteq> [] \<Longrightarrow> b \<noteq> JUndefined \<and> b \<noteq> JNull \<and> usable_reference b"
  by (auto simp: server_try_def destructure_def usable_reference_def
      split: if_splits gateway_result.splits)

lemma api_try_called:
  "snd (api_try env gw b) \<noteq> [] \<Longrightarrow> (\<exists>key. env = Some key \<and> key \<noteq> []) \<and> usable_reference b"
  by (auto simp: api_try_def destructure_def usable_reference_def own_prop_js_or
      js_or_empty_object split: if_splits gateway_result.splits option.splits)

lemma server_handler_calls: "snd (server_handler key gw b) = snd (server_try key gw b)"
  by (simp add: server_handler_def split: prod.splits sum.splits)

lemma api_handler_called:
  "snd (api_handler env gw req) \<noteq> [] \<Longrightarrow>
   req_method req = ''POST'' \<and> snd (api_try env gw (req_body req)) \<noteq> []"
  by (auto simp: api_handler_def split: prod.splits sum.splits if_splits)

lemma server_handler_reaches:
  "b \<noteq> JUndefined \<Longrightarrow> b \<noteq> JNull \<Longrightarrow> usable_reference b \<Longrightarrow>
   server_verify pd (own_prop b ''currency'') (own_prop b ''amount'') = Inr r \<Longrightarrow>
   fst (server_handler key (Resolves pd) b) = r"
  by (simp add: server_handler_def server_try_reaches)

lemma api_handler_reaches:
  "key \<noteq> [] \<Longrightarrow> usable_reference b \<Longrightarrow>
   server_verify pd (own_prop b ''currency'') (own_prop b ''amount'') = Inr r \<Longrightarrow>
   fst (api_handler (Some key) (Resolves pd) (post b)) = r"
  by (simp add: api_handler_def api_try_reaches post_def)

lemma error_not_verified:
  "verified_flag (json_response code (error_body p)) = JBool False"
  "data_payload (json_response code (error_body p)) = JUndefined"
  "status (json_response code v) = code"
  by (simp_all add: verified_flag_def data_payload_def json_response_def error_body_def)

lemma verified_flag_string:
  "verified_flag \<lparr>status = code, headers = h, body = JStr x\<rparr> = JUndefined"
  by (simp add: verified_flag_def)

lemma rejected_is_500:
  "b \<noteq> JUndefined \<Longrightarrow> b \<noteq> JNull \<Longrightarrow> usable_reference b \<Longrightarrow>
   status (fst (server_handler key (Rejects d m) b)) = 500"
  "key \<noteq> [] \<Longrightarrow> usable_reference b \<Longrightarrow>
   status (fst (api_handler (Some key) (Rejects d m) (post b))) = 500"
  by (simp_all add: server_handler_def server_try_reaches api_handler_def api_try_reaches
      post_def error_not_verified)

lemma catch_payloads:
  assumes "key \<noteq> []" and "b \<noteq> JUndefined" and "b \<noteq> JNull" and "usable_reference b"
  shows "fst (server_handler key (Rejects d m) b) = json_response 500 (error_body (js_or d m))"
    and "fst (api_handler (Some key) (Rejects d m) (post b))
           = json_response 500 (error_body (js_or (js_or d m) (JStr ''Unknown error'')))"
  using assms
  by (simp_all add: server_handler_def server_try_reaches api_handler_def api_try_reaches post_def)

subsection \<open>The verification step\<close>

lemma call_toUpperCase_string:
  "string_if_truthy c \<Longrightarrow> truthy c \<Longrightarrow> \<exists>s. c = JStr s \<and> call_toUpperCase e c = Inr (toUpperCase s)"
  by (cases c) auto

lemma currency_check_cases:
  "truthy tx \<Longrightarrow>
   currency_check v c tx =
     (if truthy c \<and> truthy (own_prop tx ''currency'') then
        (case call_toUpperCase ''currency'' c of
           Inl e \<Rightarrow> Inl e
         | Inr cu \<Rightarrow>
            (case call_toUpperCase ''tx.currency'' (own_prop tx ''currency'') of
               Inl e \<Rightarrow> Inl e
             | Inr tu \<Rightarrow> Inr (v \<and> cu = tu)))
      else Inr v)"
  by (auto simp: currency_check_def get_prop_truthy split: sum.splits)

lemma currency_check_typed:
  assumes "truthy tx" "string_if_truthy c" "string_if_truthy (own_prop tx ''currency'')"
  shows "currency_check v c tx =
     Inr (v \<and> (\<not> truthy c \<or> \<not> truthy (own_prop tx ''currency'')
                \<or> same_currency c (own_prop tx ''currency'')))"
proof (cases "truthy c \<and> truthy (own_prop tx ''currency'')")
  case True
  then obtain s t where "c = JStr s" "own_prop tx ''currency'' = JStr t"
    using assms call_toUpperCase_string by blast
  then show ?thesis using True assms(1) by (simp add: currency_check_cases)
next
  case False
  then show ?thesis using assms(1) by (auto simp: currency_check_cases)
qed

lemma currency_check_skipped:
  "truthy tx \<Longrightarrow> \<not> truthy c \<or> \<not> truthy (own_prop tx ''currency'') \<Longrightarrow>
   currency_check v c tx = Inr v"
  by (auto simp: currency_check_cases)

lemma amount_check_cases:
  "truthy tx \<Longrightarrow>
   amount_check v a tx =
     (if amount_supplied a then
        (case amountsMatch a (own_prop tx ''amount'') of
           Inl e \<Rightarrow> Inl e
         | Inr m \<Rightarrow> Inr (m \<and> v))
      else Inr v)"
  by (auto simp: amount_check_def get_prop_truthy amount_supplied_def split: sum.splits)

lemma amount_check_result:
  "truthy tx \<Longrightarrow> amountsMatch a (own_prop tx ''amount'') = Inr m \<Longrightarrow>
   amount_check v a tx = Inr (v \<and> m)"
  by (cases "amount_supplied a") (auto simp: amount_check_cases amountsMatch_not_supplied)

lemma server_verify_malformed:
  "\<not> well_formed (Resolves pd) \<Longrightarrow> server_verify pd c a = Inr invalid_response"
  by (auto simp: server_verify_def get_prop_truthy)

lemma server_verify_well_formed:
  "well_formed (Resolves pd) \<Longrightarrow>
   server_verify pd c a =
     (case amount_check (own_prop (own_prop pd ''data'') ''status'' = JStr ''success'') a
             (own_prop pd ''data'') of
        Inl e \<Rightarrow> Inl e
      | Inr v \<Rightarrow>
         (case currency_check v c (own_prop pd ''data'') of
            Inl e \<Rightarrow> Inl e
          | Inr v' \<Rightarrow> Inr (json_response 200 (result_body v' (own_prop pd ''data'')))))"
  by (simp add: server_verify_def get_prop_truthy)

lemma server_verify_typed:
  assumes "well_formed (Resolves pd)"
    and "amountsMatch a (own_prop (own_prop pd ''data'') ''amount'') = Inr m"
    and "string_if_truthy c" "string_if_truthy (own_prop (own_prop pd ''data'') ''currency'')"
  shows "server_verify pd c a =
     Inr (json_response 200
       (result_body
          (own_prop (own_prop pd ''data'') ''status'' = JStr ''success'' \<and> m
           \<and> (\<not> truthy c \<or> \<not> truthy (own_prop (own_prop pd ''data'') ''currency'')
                \<or> same_currency c (own_prop (own_prop pd ''data'') ''currency'')))
          (own_prop pd ''data'')))"
  using assms
  by (simp add: server_verify_well_formed amount_check_result currency_check_typed conj_assoc)

lemma server_verify_only_if:
  assumes "server_verify pd c a = Inr r" and "verified_flag r = JBool True"
  shows "own_prop (own_prop pd ''data'') ''status'' = JStr ''success''
     \<and> (\<not> amount_supplied a \<or> amountsMatch a (own_prop (own_prop pd ''data'') ''amount'') = Inr True)
     \<and> (\<not> truthy c \<or> \<not> truthy (own_prop (own_prop pd ''data'') ''currency'')
          \<or> same_currency c (own_prop (own_prop pd ''data'') ''currency''))"
proof (cases "well_formed (Resolves pd)")
  case False
  then show ?thesis
    using assms by (auto simp: server_verify_malformed invalid_response_def verified_flag_def
        json_response_def error_body_def)
next
  case True
  then have tx: "truthy (own_prop pd ''data'')" by simp
  from assms(1) True obtain v v' where
    v: "amount_check (own_prop (own_prop pd ''data'') ''status'' = JStr ''success'') a (own_prop pd ''data'') = Inr v"
    and v': "currency_check v c (own_prop pd ''data'') = Inr v'"
    and r: "r = json_response 200 (result_body v' (own_prop pd ''data''))"
    by (auto simp: server_verify_well_formed split: sum.splits)
  from r assms(2) have "v'"
    by (simp add: verified_flag_def json_response_def result_body_def)
  with v' tx have "v" and cur: "\<not> truthy c \<or> \<not> truthy (own_prop (own_prop pd ''data'') ''currency'')
          \<or> same_currency c (own_prop (own_prop pd ''data'') ''currency'')"
    by (auto simp: currency_check_cases split: if_splits sum.splits
        elim!: call_toUpperCase.elims)
  from v \<open>v\<close> tx have "own_prop (own_prop pd ''data'') ''status'' = JStr ''success''"
    and "\<not> amount_supplied a \<or> amountsMatch a (own_prop (own_prop pd ''data'') ''amount'') = Inr True"
    by (auto simp: amount_check_cases split: if_splits sum.splits)
  with cur show ?thesis by blast
qed

lemma server_handler_verified:
  assumes "verified_flag (fst (server_handler key gw b)) = JBool True"
  shows "\<exists>pd r. gw = Resolves pd \<and> server_verify pd (own_prop b ''currency'') (own_prop b ''amount'') = Inr r
           \<and> verified_flag r = JBool True"
  using assms
  by (auto simp: server_handler_def server_try_def destructure_def error_not_verified
      missing_reference_def split: if_splits sum.splits gateway_result.splits prod.splits)

lemma api_handler_verified:
  assumes "verified_flag (fst (api_handler env gw req)) = JBool True"
  shows "\<exists>pd r. gw = Resolves pd \<and> server_verify pd (own_prop (req_body req) ''currency'') (own_prop (req_body req) ''amount'') = Inr r
           \<and> verified_flag r = JBool True"
  using assms
  by (auto simp: api_handler_def api_try_def destructure_def error_not_verified api_verify_eq
      missing_reference_def verified_flag_string own_prop_js_or js_or_empty_object
      split: if_splits sum.splits gateway_result.splits prod.splits option.splits)

lemmas handler_defs = server_handler_def server_try_def server_verify_def destructure_def
  api_handler_def api_try_def api_verify_def js_or_def get_prop_def
  amount_check_def amount_check_api_def currency_check_def currency_check_api_def
  json_response_def result_body_def error_body_def missing_reference_def invalid_response_def
  verified_flag_def data_payload_def post_def toUpperCase_def upper_char_def char_of_def bit_0

section \<open>When \<^verbatim>\<open>verified\<close> is true\<close>

text \<open>
  C1, as the specification words it: \<^verbatim>\<open>verified\<close> is true only if the gateway reports
  the status \<^verbatim>\<open>"success"\<close>, and no amount was supplied or the amount matches, and no
  currency was supplied or the supplied currency matches the gateway's, case
  insensitively. The last part fails: the handlers compare the currencies only when the
  gateway reports one. Here the caller sends the currency \<^verbatim>\<open>"USD"\<close>, the transaction
  carries no currency (or the empty string as currency), and the handlers answer
  \<^verbatim>\<open>verified: true\<close>.
\<close>

theorem verified_without_gateway_currency:
  "verified_flag (fst (server_handler ''sk_test''
      (Resolves (JObj [(''data'', JObj [(''status'', JStr ''success'')])]))
      (JObj [(''reference'', JStr ''T1''), (''currency'', JStr ''USD'')]))) = JBool True
   \<and> verified_flag (fst (api_handler (Some ''sk_test'')
      (Resolves (JObj [(''data'', JObj [(''status'', JStr ''success'')])]))
      \<lparr>req_method = ''POST'',
        req_body = JObj [(''reference'', JStr ''T1''), (''currency'', JStr ''USD'')]\<rparr>)) = JBool True
   \<and> own_prop (JObj [(''reference'', JStr ''T1''), (''currency'', JStr ''USD'')]) ''currency''
        = JStr ''USD''
   \<and> own_prop (JObj [(''status'', JStr ''success'')]) ''currency'' = JUndefined
   \<and> \<not> same_currency (JStr ''USD'') JUndefined
   \<and> verified_flag (fst (server_handler ''sk_test''
      (Resolves (JObj [(''data'', JObj [(''status'', JStr ''success''), (''currency'', JStr [])])]))
      (JObj [(''reference'', JStr ''T1''), (''currency'', JStr ''USD'')]))) = JBool True
   \<and> \<not> same_currency (JStr ''USD'') (JStr [])"
  by (simp add: handler_defs)

text \<open>
  C1, amended: in the response of either handler \<^verbatim>\<open>verified\<close> is true only if the
  transaction's status is the string \<^verbatim>\<open>"success"\<close>, and the caller supplied no amount
  or \<^verbatim>\<open>amountsMatch\<close> returns true for the supplied amount and the transaction's, and
  the supplied currency is falsy or the transaction's currency is falsy or the two are
  strings that are equal once put in upper case.
\<close>

theorem verified_only_if:
  assumes "r = fst (server_handler key gw b)
           \<or> r = fst (api_handler env gw \<lparr>req_method = m, req_body = b\<rparr>)"
    and "verified_flag r = JBool True"
  shows "own_prop (gateway_tx gw) ''status'' = JStr ''success''
     \<and> (\<not> amount_supplied (own_prop b ''amount'')
          \<or> amountsMatch (own_prop b ''amount'') (own_prop (gateway_tx gw) ''amount'') = Inr True)
     \<and> (\<not> truthy (own_prop b ''currency'') \<or> \<not> truthy (own_prop (gateway_tx gw) ''currency'')
          \<or> same_currency (own_prop b ''currency'') (own_prop (gateway_tx gw) ''currency''))"
proof -
  from assms obtain pd r' where gw: "gw = Resolves pd"
    and v: "server_verify pd (own_prop b ''currency'') (own_prop b ''amount'') = Inr r'"
    and f: "verified_flag r' = JBool True"
    using server_handler_verified [of key gw b]
      api_handler_verified [of env gw "\<lparr>req_method = m, req_body = b\<rparr>"]
    by auto
  show ?thesis
    using server_verify_only_if [OF v f] by (simp add: gw)
qed

theorem verified_only_if_witness:
  "verified_flag (fst (server_handler ''sk_test''
      (Resolves (JObj [(''data'', JObj [(''status'', JStr ''success''),
                                        (''amount'', JNum (Finite 7500000)),
                                        (''currency'', JStr ''NGN'')])]))
      (JObj [(''reference'', JStr ''T1''), (''amount'', JNum (Finite 75000)),
             (''currency'', JStr ''ngn'')]))) = JBool True
   \<and> amountsMatch (JNum (Finite 75000)) (JNum (Finite 7500000)) = Inr True
   \<and> same_currency (JStr ''ngn'') (JStr ''NGN'')"
proof -
  have "verified_flag (fst (server_handler ''sk_test''
      (Resolves (JObj [(''data'', JObj [(''status'', JStr ''success''),
                                        (''amount'', JNum (Finite 7500000)),
                                        (''currency'', JStr ''NGN'')])]))
      (JObj [(''reference'', JStr ''T1''), (''amount'', JNum (Finite 75000)),
             (''currency'', JStr ''ngn'')]))) = JBool True"
    by (simp add: handler_defs match_7500000)
  then show ?thesis
    using verified_only_if [of
      "fst (server_handler ''sk_test''
      (Resolves (JObj [(''data'', JObj [(''status'', JStr ''success''),
                                        (''amount'', JNum (Finite 7500000)),
                                        (''currency'', JStr ''NGN'')])]))
      (JObj [(''reference'', JStr ''T1''), (''amount'', JNum (Finite 75000)),
             (''currency'', JStr ''ngn'')]))"
      "''sk_test''"
      "Resolves (JObj [(''data'', JObj [(''status'', JStr ''success''),
                                        (''amount'', JNum (Finite 7500000)),
                                        (''currency'', JStr ''NGN'')])])"
      "JObj [(''reference'', JStr ''T1''), (''amount'', JNum (Finite 75000)),
             (''currency'', JStr ''ngn'')]"]
    by (simp add: amount_supplied_def)
qed

section \<open>The amount rule\<close>

text \<open>
  C2. For a client amount \<open>a\<close> that is neither \<^verbatim>\<open>undefined\<close> nor \<^verbatim>\<open>null\<close> and which
  \<^verbatim>\<open>Number\<close> converts to \<open>p\<close>, and a gateway amount that is the number \<open>A\<close>: the result
  of \<^verbatim>\<open>amountsMatch\<close> (in both files) is false when \<open>p\<close> is \<^verbatim>\<open>NaN\<close>, and otherwise
  true exactly when \<open>A\<close> is \<^verbatim>\<open>Math.round(p)\<close> or \<open>A\<close> is \<^verbatim>\<open>Math.round(p * 100)\<close>.
\<close>

theorem amountsMatch_rule:
  assumes "a \<noteq> JUndefined" and "a \<noteq> JNull" and "Number a = Inr p"
  shows "amountsMatch a (JNum A)
           = Inr (p \<noteq> NaN \<and> (A = Math_round p \<or> A = Math_round (js_mul p (Finite 100))))
       \<and> amountsMatch_api a (JNum A)
           = Inr (p \<noteq> NaN \<and> (A = Math_round p \<or> A = Math_round (js_mul p (Finite 100))))"
  using amountsMatch_numbers [OF assms] by (simp add: amountsMatch_api_eq)

theorem amountsMatch_rule_witness:
  "Number (JStr ''75000.00'') = Inr (Finite 75000)
   \<and> amountsMatch (JStr ''75000.00'') (JNum (Finite 7500000)) = Inr True
   \<and> amountsMatch_api (JStr ''75000.00'') (JNum (Finite 7500000)) = Inr True
   \<and> Number (JStr ''abc'') = Inr NaN
   \<and> amountsMatch (JStr ''abc'') (JNum (Finite 7500000)) = Inr False"
proof -
  have n: "Number (JStr ''75000.00'') = Inr (Finite 75000)"
    using to_double_int [of 75000] by (simp add: StringToNumber_75000)
  have a: "Number (JStr ''abc'') = Inr NaN"
    by (simp add: StringToNumber_abc)
  have m: "js_mul (Finite 75000) (Finite 100) = Finite 7500000"
    using to_double_int [of 7500000] by simp
  have r: "Math_round (Finite 7500000) = Finite 7500000" "Math_round (Finite 75000) = Finite 75000"
    using Math_round_near [of 7500000 7500000] Math_round_near [of 75000 75000] by simp_all
  show ?thesis
    using amountsMatch_rule [of "JStr ''75000.00''" "Finite 75000" "Finite 7500000"]
      amountsMatch_rule [of "JStr ''abc''" "NaN" "Finite 7500000"] n a
    by (simp add: m r del: Math_round.simps js_mul.simps Number.simps)
qed

text \<open>
  C3, as the specification words it: for every gateway amount \<open>A\<close> both the client
  input \<open>A\<close> and the client input \<open>A/100\<close> match. The client input \<open>A/100\<close> is the
  double nearest to that quotient. For the amount 3518437208883202 it is
  35184372088832.0234375; its product with 100 is rounded to 3518437208883202.5, which
  \<^verbatim>\<open>Math.round\<close> takes to 3518437208883203, and the function returns false.
\<close>

theorem hundredth_of_large_amount_does_not_match:
  "amountsMatch (JNum (to_double (3518437208883202 / 100))) (JNum (Finite 3518437208883202))
     = Inr False"
  unfolding to_double_cex
  by (simp add: amountsMatch_numbers to_double_cex_times_100 floor_cex)

text \<open>
  C3, amended: every integer amount \<open>A\<close> matches itself; for every integer amount \<open>A\<close>
  of magnitude below \<open>100 \<cdot> 2\<^sup>4\<^sup>5\<close> = 3518437208883200 the double nearest to \<open>A/100\<close>
  matches \<open>A\<close>; and for the gateway amount 7500000 the client amounts 7500000 and 75000
  match and the client amount 12345 does not.
\<close>

theorem amountsMatch_both_encodings:
  "amountsMatch (JNum (Finite (of_int A))) (JNum (Finite (of_int A))) = Inr True
   \<and> (\<bar>A\<bar> < 100 * 2 ^ 45 \<longrightarrow>
        amountsMatch (JNum (to_double (of_int A / 100))) (JNum (Finite (of_int A))) = Inr True)
   \<and> amountsMatch (JNum (Finite 7500000)) (JNum (Finite 7500000)) = Inr True
   \<and> amountsMatch (JNum (Finite 75000)) (JNum (Finite 7500000)) = Inr True
   \<and> amountsMatch (JNum (Finite 12345)) (JNum (Finite 7500000)) = Inr False"
proof (intro conjI impI)
  show "amountsMatch (JNum (Finite (of_int A))) (JNum (Finite (of_int A))) = Inr True"
    by (rule amountsMatch_same_integer)
  show "amountsMatch (JNum (Finite 7500000)) (JNum (Finite 7500000)) = Inr True"
    by (rule match_7500000)
  show "amountsMatch (JNum (Finite 75000)) (JNum (Finite 7500000)) = Inr True"
    by (rule match_7500000)
  show "amountsMatch (JNum (Finite 12345)) (JNum (Finite 7500000)) = Inr False"
    by (rule match_7500000)
next
  assume "\<bar>A\<bar> < 100 * 2 ^ 45"
  then obtain y where y: "js_mul (to_double (of_int A / 100)) (Finite 100) = Finite y"
    and c: "\<bar>y - of_int A\<bar> < 1 / 2"
    using hundredth_round_trip by blast
  have "Math_round (Finite y) = Finite (of_int A)"
    using c by (intro Math_round_near) linarith+
  moreover have "to_double (of_int A / 100) \<noteq> NaN"
    by (rule to_double_not_NaN)
  ultimately show
    "amountsMatch (JNum (to_double (of_int A / 100))) (JNum (Finite (of_int A))) = Inr True"
    using y by (simp add: amountsMatch_numbers del: Math_round.simps)
qed

theorem amountsMatch_both_encodings_witness:
  "\<bar>7500000 :: int\<bar> < 100 * 2 ^ 45
   \<and> amountsMatch (JNum (to_double (7500000 / 100))) (JNum (Finite 7500000)) = Inr True"
  using amountsMatch_both_encodings [of 7500000] by simp

section \<open>Requests without a reference\<close>



section \<open>A gateway answer without the inner data object\<close>

text \<open>
  C5. When the gateway was called and its answer has no body, or a body without the
  inner \<^verbatim>\<open>data\<close> object (more generally: either is falsy), both handlers answer with
  status 500 and the error \<^verbatim>\<open>"Invalid response from Paystack"\<close>; so the answer is
  never a 200 with \<^verbatim>\<open>verified: false\<close>. That the gateway was called is read off the
  list of calls of the handler.
\<close>

theorem malformed_upstream_is_500:
  assumes "\<not> truthy paystackData \<or> \<not> truthy (own_prop paystackData ''data'')"
  shows "(snd (server_handler key (Resolves paystackData) b) \<noteq> [] \<longrightarrow>
            fst (server_handler key (Resolves paystackData) b)
              = json_response 500 (error_body (JStr ''Invalid response from Paystack'')))
         \<and> (snd (api_handler env (Resolves paystackData) req) \<noteq> [] \<longrightarrow>
            fst (api_handler env (Resolves paystackData) req)
              = json_response 500 (error_body (JStr ''Invalid response from Paystack'')))"
proof (intro conjI impI)
  have mal: "\<not> well_formed (Resolves paystackData)"
    using assms by auto
  {
    assume "snd (server_handler key (Resolves paystackData) b) \<noteq> []"
    then have "b \<noteq> JUndefined \<and> b \<noteq> JNull \<and> usable_reference b"
      using server_try_called by (simp add: server_handler_calls)
    then show "fst (server_handler key (Resolves paystackData) b)
              = json_response 500 (error_body (JStr ''Invalid response from Paystack''))"
      by (simp add: server_handler_def server_try_reaches server_verify_malformed [OF mal]
          invalid_response_def)
  }
  {
    assume "snd (api_handler env (Resolves paystackData) req) \<noteq> []"
    then have m: "req_method req = ''POST''"
      and "snd (api_try env (Resolves paystackData) (req_body req)) \<noteq> []"
      using api_handler_called by blast+
    then obtain k where "env = Some k" "k \<noteq> []" "usable_reference (req_body req)"
      using api_try_called by blast
    then show "fst (api_handler env (Resolves paystackData) req)
              = json_response 500 (error_body (JStr ''Invalid response from Paystack''))"
      using m by (simp add: api_handler_def api_try_reaches server_verify_malformed [OF mal]
          invalid_response_def)
  }
qed

theorem malformed_upstream_is_500_witness:
  "snd (server_handler ''sk_test'' (Resolves (JObj [(''status'', JBool True)]))
          (JObj [(''reference'', JStr ''T1'')])) \<noteq> []
   \<and> fst (server_handler ''sk_test'' (Resolves (JObj [(''status'', JBool True)]))
          (JObj [(''reference'', JStr ''T1'')]))
      = \<lparr>status = 500, headers = [],
         body = JObj [(''verified'', JBool False),
                      (''error'', JStr ''Invalid response from Paystack'')]\<rparr>
   \<and> snd (api_handler (Some ''sk_test'') (Resolves JUndefined)
          \<lparr>req_method = ''POST'', req_body = JObj [(''reference'', JStr ''T1'')]\<rparr>) \<noteq> []
   \<and> fst (api_handler (Some ''sk_test'') (Resolves JUndefined)
          \<lparr>req_method = ''POST'', req_body = JObj [(''reference'', JStr ''T1'')]\<rparr>)
      = \<lparr>status = 500, headers = [],
         body = JObj [(''verified'', JBool False),
                      (''error'', JStr ''Invalid response from Paystack'')]\<rparr>"
proof -
  have s: "snd (server_handler ''sk_test'' (Resolves (JObj [(''status'', JBool True)]))
                  (JObj [(''reference'', JStr ''T1'')])) \<noteq> []"
    by (simp add: server_handler_def server_try_def destructure_def split: sum.splits)
  have a: "snd (api_handler (Some ''sk_test'') (Resolves JUndefined)
                  \<lparr>req_method = ''POST'', req_body = JObj [(''reference'', JStr ''T1'')]\<rparr>) \<noteq> []"
    by (simp add: api_handler_def api_try_def destructure_def js_or_def split: sum.splits)
  show ?thesis
    using s a
      malformed_upstream_is_500
        [of "JObj [(''status'', JBool True)]" "''sk_test''" "JObj [(''reference'', JStr ''T1'')]"
            "Some ''sk_test''"
            "\<lparr>req_method = ''POST'', req_body = JObj [(''reference'', JStr ''T1'')]\<rparr>"]
      malformed_upstream_is_500
        [of "JUndefined" "''sk_test''" "JObj [(''reference'', JStr ''T1'')]"
            "Some ''sk_test''"
            "\<lparr>req_method = ''POST'', req_body = JObj [(''reference'', JStr ''T1'')]\<rparr>"]
    by (simp add: json_response_def error_body_def)
qed

section \<open>A well-formed gateway answer\<close>

text \<open>
  C6, as the specification words it: every request with a well-formed gateway answer
  gets status 200 with \<^verbatim>\<open>{verified, data: transaction}\<close>, and only a failure of the
  gateway or of the transport gives another status. This fails for a request whose
  values are not of the types of the data model: the handlers call
  \<^verbatim>\<open>currency.toUpperCase()\<close> on whatever truthy value the caller sent, and the
  \<^verbatim>\<open>catch\<close> block turns every exception into a 500. Here the caller sends the currency
  \<open>5\<close>, the gateway was called and answered with a well-formed successful transaction
  in \<^verbatim>\<open>"NGN"\<close>, and both handlers answer with status 500.
\<close>

theorem non_string_currency_is_500:
  "well_formed (Resolves (JObj [(''data'', JObj [(''status'', JStr ''success''),
                                                 (''currency'', JStr ''NGN'')])]))
   \<and> fst (server_handler ''sk_test''
       (Resolves (JObj [(''data'', JObj [(''status'', JStr ''success''),
                                         (''currency'', JStr ''NGN'')])]))
       (JObj [(''reference'', JStr ''T1''), (''currency'', JNum (Finite 5))]))
     = \<lparr>status = 500, headers = [],
        body = JObj [(''verified'', JBool False),
                     (''error'', JStr ''currency.toUpperCase is not a function'')]\<rparr>
   \<and> fst (api_handler (Some ''sk_test'')
       (Resolves (JObj [(''data'', JObj [(''status'', JStr ''success''),
                                         (''currency'', JStr ''NGN'')])]))
       \<lparr>req_method = ''POST'',
         req_body = JObj [(''reference'', JStr ''T1''), (''currency'', JNum (Finite 5))]\<rparr>)
     = \<lparr>status = 500, headers = [],
        body = JObj [(''verified'', JBool False),
                     (''error'', JStr ''currency.toUpperCase is not a function'')]\<rparr>
   \<and> snd (server_handler ''sk_test''
       (Resolves (JObj [(''data'', JObj [(''status'', JStr ''success''),
                                         (''currency'', JStr ''NGN'')])]))
       (JObj [(''reference'', JStr ''T1''), (''currency'', JNum (Finite 5))]))
     = [\<lparr>call_reference = JStr ''T1'', call_bearer = ''sk_test''\<rparr>]"
  by (simp add: handler_defs)

text \<open>
  C6, amended: take a request that reaches the gateway and whose values convert
  without an exception: the amounts, of the caller and of the transaction, convert to
  numbers, and a currency, of the caller or of the transaction, is a string when it is
  truthy. If the gateway's answer is well formed, both handlers answer with status 200
  and \<^verbatim>\<open>{verified, data: transaction}\<close>, whatever \<^verbatim>\<open>verified\<close> is: it is true exactly
  when the status is \<^verbatim>\<open>"success"\<close>, the amount matches and the currency check passes,
  so another status or a mismatch gives a 200 with \<^verbatim>\<open>verified: false\<close>. If the
  gateway's answer is not well formed, or the call failed, the status is 500.
\<close>

theorem well_formed_answer_is_200:
  assumes "key \<noteq> []" and "b \<noteq> JUndefined" and "b \<noteq> JNull" and "usable_reference b"
    and "\<not> to_primitive_throws (own_prop b ''amount'')"
    and "\<not> to_primitive_throws (own_prop (gateway_tx gw) ''amount'')"
    and "string_if_truthy (own_prop b ''currency'')"
    and "string_if_truthy (own_prop (gateway_tx gw) ''currency'')"
  shows "(well_formed gw \<longrightarrow>
            fst (server_handler key gw b)
              = json_response 200
                  (result_body
                     (own_prop (gateway_tx gw) ''status'' = JStr ''success''
                      \<and> amountsMatch (own_prop b ''amount'') (own_prop (gateway_tx gw) ''amount'') = Inr True
                      \<and> (\<not> truthy (own_prop b ''currency'')
                           \<or> \<not> truthy (own_prop (gateway_tx gw) ''currency'')
                           \<or> same_currency (own_prop b ''currency'') (own_prop (gateway_tx gw) ''currency'')))
                     (gateway_tx gw))
            \<and> fst (api_handler (Some key) gw (post b)) = fst (server_handler key gw b))
       \<and> (\<not> well_formed gw \<longrightarrow>
            status (fst (server_handler key gw b)) = 500
            \<and> status (fst (api_handler (Some key) gw (post b))) = 500)"
proof (cases gw)
  case (Rejects d m)
  then show ?thesis using assms rejected_is_500 by simp
next
  case (Resolves pd)
  obtain mm where mm: "amountsMatch (own_prop b ''amount'') (own_prop (own_prop pd ''data'') ''amount'') = Inr mm"
    using amountsMatch_convertible assms(5,6) Resolves by fastforce
  show ?thesis
  proof (cases "well_formed gw")
    case True
    then have "server_verify pd (own_prop b ''currency'') (own_prop b ''amount'')
       = Inr (json_response 200
       (result_body
          (own_prop (own_prop pd ''data'') ''status'' = JStr ''success'' \<and> mm
           \<and> (\<not> truthy (own_prop b ''currency'') \<or> \<not> truthy (own_prop (own_prop pd ''data'') ''currency'')
                \<or> same_currency (own_prop b ''currency'') (own_prop (own_prop pd ''data'') ''currency'')))
          (own_prop pd ''data'')))"
      using server_verify_typed [OF _ mm] assms(7,8) Resolves by simp
    then show ?thesis
      using assms(1-4) True Resolves mm
      by (simp add: server_handler_reaches api_handler_reaches)
  next
    case False
    then have "server_verify pd (own_prop b ''currency'') (own_prop b ''amount'') = Inr invalid_response"
      using Resolves server_verify_malformed by simp
    then show ?thesis
      using assms(1-4) False Resolves
      by (auto simp: server_handler_reaches api_handler_reaches invalid_response_def error_not_verified)
  qed
qed

theorem well_formed_answer_is_200_witness:
  "fst (server_handler ''sk_test''
       (Resolves (JObj [(''data'', JObj [(''status'', JStr ''abandoned''),
                                         (''amount'', JNum (Finite 7500000)),
                                         (''currency'', JStr ''NGN'')])]))
       (JObj [(''reference'', JStr ''T1''), (''amount'', JNum (Finite 75000)),
              (''currency'', JStr ''NGN'')]))
     = \<lparr>status = 200, headers = [],
        body = JObj [(''verified'', JBool False),
                     (''data'', JObj [(''status'', JStr ''abandoned''),
                                      (''amount'', JNum (Finite 7500000)),
                                      (''currency'', JStr ''NGN'')])]\<rparr>
   \<and> fst (api_handler (Some ''sk_test'')
       (Resolves (JObj [(''data'', JObj [(''status'', JStr ''success''),
                                         (''amount'', JNum (Finite 7500000)),
                                         (''currency'', JStr ''NGN'')])]))
       \<lparr>req_method = ''POST'',
         req_body = JObj [(''reference'', JStr ''T1''), (''amount'', JNum (Finite 12345)),
                          (''currency'', JStr ''NGN'')]\<rparr>)
     = \<lparr>status = 200, headers = [],
        body = JObj [(''verified'', JBool False),
                     (''data'', JObj [(''status'', JStr ''success''),
                                      (''amount'', JNum (Finite 7500000)),
                                      (''currency'', JStr ''NGN'')])]\<rparr>
   \<and> status (fst (server_handler ''sk_test'' (Rejects JUndefined (JStr ''timeout of 10000ms exceeded''))
       (JObj [(''reference'', JStr ''T1'')]))) = 500"
  using well_formed_answer_is_200 [of "''sk_test''"
       "JObj [(''reference'', JStr ''T1''), (''amount'', JNum (Finite 75000)),
              (''currency'', JStr ''NGN'')]"
       "Resolves (JObj [(''data'', JObj [(''status'', JStr ''abandoned''),
                                         (''amount'', JNum (Finite 7500000)),
                                         (''currency'', JStr ''NGN'')])])"]
    well_formed_answer_is_200 [of "''sk_test''"
       "JObj [(''reference'', JStr ''T1''), (''amount'', JNum (Finite 12345)),
              (''currency'', JStr ''NGN'')]"
       "Resolves (JObj [(''data'', JObj [(''status'', JStr ''success''),
                                         (''amount'', JNum (Finite 7500000)),
                                         (''currency'', JStr ''NGN'')])])"]
    well_formed_answer_is_200 [of "''sk_test''" "JObj [(''reference'', JStr ''T1'')]"
       "Rejects JUndefined (JStr ''timeout of 10000ms exceeded'')"]
  by (simp add: usable_reference_def match_7500000 json_response_def result_body_def post_def)

section \<open>The currency check\<close>

text \<open>
  C7. For a request that reaches the gateway and a well-formed answer, \<open>m\<close> being the
  outcome of the amount comparison: when the caller's currency or the transaction's
  currency is falsy, the currencies are not compared and \<^verbatim>\<open>verified\<close> is what the
  status and the amount give; when both are non-empty strings, \<^verbatim>\<open>verified\<close> requires
  in addition that they are equal once put in upper case, so a mismatch makes it false
  (and \<^verbatim>\<open>"ngn"\<close> matches \<^verbatim>\<open>"NGN"\<close>).
\<close>

theorem currency_check_rule:
  assumes "key \<noteq> []" and "b \<noteq> JUndefined" and "b \<noteq> JNull" and "usable_reference b"
    and "well_formed (Resolves pd)"
    and "amountsMatch (own_prop b ''amount'') (own_prop (own_prop pd ''data'') ''amount'') = Inr m"
  shows "(\<not> truthy (own_prop b ''currency'') \<or> \<not> truthy (own_prop (own_prop pd ''data'') ''currency'') \<longrightarrow>
            fst (server_handler key (Resolves pd) b)
              = json_response 200
                  (result_body (own_prop (own_prop pd ''data'') ''status'' = JStr ''success'' \<and> m)
                     (own_prop pd ''data''))
            \<and> fst (api_handler (Some key) (Resolves pd) (post b))
              = json_response 200
                  (result_body (own_prop (own_prop pd ''data'') ''status'' = JStr ''success'' \<and> m)
                     (own_prop pd ''data'')))
       \<and> (\<forall>s t. own_prop b ''currency'' = JStr s \<and> own_prop (own_prop pd ''data'') ''currency'' = JStr t
                 \<and> s \<noteq> [] \<and> t \<noteq> [] \<longrightarrow>
            fst (server_handler key (Resolves pd) b)
              = json_response 200
                  (result_body (own_prop (own_prop pd ''data'') ''status'' = JStr ''success'' \<and> m
                                \<and> toUpperCase s = toUpperCase t)
                     (own_prop pd ''data''))
            \<and> fst (api_handler (Some key) (Resolves pd) (post b))
              = json_response 200
                  (result_body (own_prop (own_prop pd ''data'') ''status'' = JStr ''success'' \<and> m
                                \<and> toUpperCase s = toUpperCase t)
                     (own_prop pd ''data'')))"
proof -
  have tx: "truthy (own_prop pd ''data'')" using assms(5) by simp
  note am = amount_check_result [OF tx assms(6)]
  have skip: "server_verify pd (own_prop b ''currency'') (own_prop b ''amount'')
       = Inr (json_response 200
                  (result_body (own_prop (own_prop pd ''data'') ''status'' = JStr ''success'' \<and> m)
                     (own_prop pd ''data'')))"
    if "\<not> truthy (own_prop b ''currency'') \<or> \<not> truthy (own_prop (own_prop pd ''data'') ''currency'')"
    using that assms(5) tx by (simp add: server_verify_well_formed am currency_check_skipped)
  have cmp: "server_verify pd (own_prop b ''currency'') (own_prop b ''amount'')
       = Inr (json_response 200
                  (result_body (own_prop (own_prop pd ''data'') ''status'' = JStr ''success'' \<and> m
                                \<and> toUpperCase s = toUpperCase t)
                     (own_prop pd ''data'')))"
    if "own_prop b ''currency'' = JStr s" "own_prop (own_prop pd ''data'') ''currency'' = JStr t"
       "s \<noteq> []" "t \<noteq> []" for s t
    using that assms(5) tx
    by (simp add: server_verify_well_formed am currency_check_cases conj_assoc)
  show ?thesis
    using skip cmp assms(1-4)
    by (auto simp: server_handler_reaches api_handler_reaches)
qed

theorem currency_check_rule_witness:
  "fst (server_handler ''sk_test''
       (Resolves (JObj [(''data'', JObj [(''status'', JStr ''success''),
                                         (''currency'', JStr ''NGN'')])]))
       (JObj [(''reference'', JStr ''T1''), (''currency'', JStr ''ngn'')]))
     = \<lparr>status = 200, headers = [],
        body = JObj [(''verified'', JBool True),
                     (''data'', JObj [(''status'', JStr ''success''),
                                      (''currency'', JStr ''NGN'')])]\<rparr>
   \<and> fst (api_handler (Some ''sk_test'')
       (Resolves (JObj [(''data'', JObj [(''status'', JStr ''success''),
                                         (''currency'', JStr ''NGN'')])]))
       \<lparr>req_method = ''POST'',
         req_body = JObj [(''reference'', JStr ''T1''), (''currency'', JStr ''usd'')]\<rparr>)
     = \<lparr>status = 200, headers = [],
        body = JObj [(''verified'', JBool False),
                     (''data'', JObj [(''status'', JStr ''success''),
                                      (''currency'', JStr ''NGN'')])]\<rparr>
   \<and> fst (server_handler ''sk_test''
       (Resolves (JObj [(''data'', JObj [(''status'', JStr ''success'')])]))
       (JObj [(''reference'', JStr ''T1''), (''currency'', JStr ''usd'')]))
     = \<lparr>status = 200, headers = [],
        body = JObj [(''verified'', JBool True),
                     (''data'', JObj [(''status'', JStr ''success'')])]\<rparr>"
proof -
  have u: "toUpperCase ''ngn'' = toUpperCase ''NGN''" "toUpperCase ''usd'' \<noteq> toUpperCase ''NGN''"
    by (simp_all add: toUpperCase_def upper_char_def char_of_def bit_0)
  show ?thesis
    using currency_check_rule [of "''sk_test''"
       "JObj [(''reference'', JStr ''T1''), (''currency'', JStr ''ngn'')]"
       "JObj [(''data'', JObj [(''status'', JStr ''success''), (''currency'', JStr ''NGN'')])]"
       True]
      currency_check_rule [of "''sk_test''"
       "JObj [(''reference'', JStr ''T1''), (''currency'', JStr ''usd'')]"
       "JObj [(''data'', JObj [(''status'', JStr ''success''), (''currency'', JStr ''NGN'')])]"
       True]
      currency_check_rule [of "''sk_test''"
       "JObj [(''reference'', JStr ''T1''), (''currency'', JStr ''usd'')]"
       "JObj [(''data'', JObj [(''status'', JStr ''success'')])]"
       True]
    by (simp add: usable_reference_def amountsMatch_def json_response_def result_body_def
        post_def u)
qed

section \<open>The two handlers agree\<close>



section \<open>The tolerance of the amount rule\<close>

text \<open>
  C9. For every integer gateway amount \<open>A\<close> and every client amount \<open>x\<close> with
  \<open>A - 1/2 \<le> x < A + 1/2\<close>, \<^verbatim>\<open>amountsMatch(x, A)\<close> is true: \<^verbatim>\<open>Math.round\<close> takes \<open>x\<close>
  to \<open>A\<close>. The client amount 100.4 matches the gateway amount 100.
\<close>

theorem amountsMatch_tolerant:
  assumes "of_int A - 1 / 2 \<le> x" and "x < of_int A + 1 / 2"
  shows "amountsMatch (JNum (Finite x)) (JNum (Finite (of_int A))) = Inr True"
  using Math_round_near [OF assms]
  by (simp add: amountsMatch_numbers)

theorem amountsMatch_tolerant_witness:
  "amountsMatch (JNum (to_double (1004 / 10))) (JNum (Finite 100)) = Inr True"
  using amountsMatch_tolerant [of 100 "3532510957718733 / 35184372088832"]
  unfolding to_double_100_4 by simp

section \<open>Falsy references\<close>

text \<open>
  C10. The test is \<^verbatim>\<open>!reference\<close>: a body that carries a reference which is falsy
  (\<open>0\<close>, \<^verbatim>\<open>false\<close>, \<^verbatim>\<open>null\<close>, the empty string, \<^verbatim>\<open>NaN\<close>) is answered with status
  400 and \<^verbatim>\<open>{verified: false, error: "Missing reference"}\<close> by both handlers, without a
  call to the gateway.
\<close>

theorem falsy_reference_rejected:
  assumes "map_of kvs ''reference'' = Some r" and "\<not> truthy r" and "key \<noteq> []"
  shows "server_handler key gw (JObj kvs)
           = (json_response 400 (error_body (JStr ''Missing reference'')), [])
         \<and> api_handler (Some key) gw (post (JObj kvs))
           = (json_response 400 (error_body (JStr ''Missing reference'')), [])"
  using assms server_missing [of "JObj kvs" key gw] api_missing [of key "JObj kvs" gw]
  by (simp add: missing_reference_def)

theorem falsy_reference_rejected_witness:
  "server_handler ''sk_test'' (Resolves JNull) (JObj [(''reference'', JNum (Finite 0))])
     = (\<lparr>status = 400, headers = [],
         body = JObj [(''verified'', JBool False), (''error'', JStr ''Missing reference'')]\<rparr>, [])
   \<and> api_handler (Some ''sk_test'') (Resolves JNull)
       \<lparr>req_method = ''POST'', req_body = JObj [(''reference'', JNum (Finite 0))]\<rparr>
     = (\<lparr>status = 400, headers = [],
         body = JObj [(''verified'', JBool False), (''error'', JStr ''Missing reference'')]\<rparr>, [])
   \<and> server_handler ''sk_test'' (Resolves JNull) (JObj [(''reference'', JBool False)])
     = (\<lparr>status = 400, headers = [],
         body = JObj [(''verified'', JBool False), (''error'', JStr ''Missing reference'')]\<rparr>, [])
   \<and> api_handler (Some ''sk_test'') (Resolves JNull)
       \<lparr>req_method = ''POST'', req_body = JObj [(''reference'', JNull)]\<rparr>
     = (\<lparr>status = 400, headers = [],
         body = JObj [(''verified'', JBool False), (''error'', JStr ''Missing reference'')]\<rparr>, [])"
  using falsy_reference_rejected
          [of "[(''reference'', JNum (Finite 0))]" "JNum (Finite 0)" "''sk_test''" "Resolves JNull"]
        falsy_reference_rejected
          [of "[(''reference'', JBool False)]" "JBool False" "''sk_test''" "Resolves JNull"]
        falsy_reference_rejected
          [of "[(''reference'', JNull)]" "JNull" "''sk_test''" "Resolves JNull"]
  by (simp add: json_response_def error_body_def post_def)

end
